theory Spec2Isabelle
  imports Main
begin

section \<open>A forking HTTP server on raw sockets (server.py)\<close>

text \<open>
  The program is a sequence of library calls on sockets and on the process table. Each
  function of \<^verbatim>\<open>server.py\<close> is embedded as a function on the state of the process that
  runs it. The state records the sockets the process holds and the calls it has issued,
  oldest first. What a call returns or raises is not decided by the program: it is an answer
  of the environment (the peer, the kernel), and is a parameter of the model.

  A call on a socket or on the process table that fails raises \<^verbatim>\<open>OSError\<close> with an
  errno: \<^verbatim>\<open>socket\<close>, \<^verbatim>\<open>setsockopt\<close>, \<^verbatim>\<open>bind\<close>, \<^verbatim>\<open>listen\<close>, \<^verbatim>\<open>accept\<close>, \<^verbatim>\<open>fork\<close>,
  \<^verbatim>\<open>recv\<close>, \<^verbatim>\<open>sendall\<close> and \<^verbatim>\<open>waitpid\<close> may fail. The \<^verbatim>\<open>print\<close> of a request may
  raise too: \<^verbatim>\<open>OSError\<close> when standard output cannot be written, \<^verbatim>\<open>UnicodeEncodeError\<close>
  when the encoding of standard output has no code for a character of the decoded request.
  \<^verbatim>\<open>close\<close>, \<^verbatim>\<open>signal.signal\<close> and the \<^verbatim>\<open>print\<close> of the start-up banner, a fixed ASCII
  text, are taken to succeed.

  \<^verbatim>\<open>os.fork\<close> returns twice. The model follows one process at a time: the parent and the
  child run the same loop body from the same state and differ in what \<^verbatim>\<open>os.fork\<close>
  returned to them. The handler \<^verbatim>\<open>reap_children\<close> is modelled as a function of its own on
  the kernel's table of children; when the signal that runs it is delivered is not
  modelled.
\<close>

subsection \<open>Constants of the module\<close>

type_synonym bytes = string
type_synonym errno = nat
type_synonym pid = int

definition HOST :: string where
  "HOST = ''''"

definition PORT :: nat where
  "PORT = 8888"

definition REQUEST_QUEUE_SIZE :: nat where
  "REQUEST_QUEUE_SIZE = 1024"

definition BUFFER_SIZE :: nat where
  "BUFFER_SIZE = 1024"

text \<open>The values of \<^verbatim>\<open>errno.EINTR\<close>, \<^verbatim>\<open>errno.ECHILD\<close> and \<^verbatim>\<open>os.WNOHANG\<close> on Linux.\<close>

definition EINTR :: errno where
  "EINTR = 4"

definition ECHILD :: errno where
  "ECHILD = 10"

definition WNOHANG :: int where
  "WNOHANG = 1"

subsection \<open>Exceptions, outcomes, sockets and the state of a process\<close>

datatype exn = OSError (errno_of: errno) | UnicodeEncodeError

text \<open>
  How a piece of code ends: it returns a value, it raises, the process leaves through
  \<^verbatim>\<open>os._exit\<close>, or the process stays blocked in a call the environment has not answered.
\<close>

datatype 'a outcome = Val 'a | Raised exn | Exited int | Blocked

datatype sock = ListenSocket | ClientConn nat

datatype sock_state =
    Created
  | Bound string nat
  | Listening string nat nat
  | Connected
  | Closed

datatype event =
    Socket_AF_INET_SOCK_STREAM
  | Setsockopt_SOL_SOCKET_SO_REUSEADDR int
  | Bind string nat
  | Listen nat
  | Print string
  | Print_decoded bytes
  | Signal_SIGCHLD_reap_children
  | Accept
  | Fork
  | Close sock
  | Recv sock nat
  | Sendall sock bytes
  | Os_exit int

record process =
  sockets :: "sock \<Rightarrow> sock_state option"
  reuseaddr :: bool
  sigchld_reaper :: bool
  trace :: "event list"

type_synonym 'a io = "process \<Rightarrow> 'a outcome \<times> process"

definition io_return :: "'a \<Rightarrow> 'a io" where
  "io_return a = (\<lambda>s. (Val a, s))"

definition io_raise :: "exn \<Rightarrow> 'a io" where
  "io_raise e = (\<lambda>s. (Raised e, s))"

definition io_bind :: "'a io \<Rightarrow> ('a \<Rightarrow> 'b io) \<Rightarrow> 'b io" where
  "io_bind m f = (\<lambda>s. case m s of
       (Val a, s') \<Rightarrow> f a s'
     | (Raised e, s') \<Rightarrow> (Raised e, s')
     | (Exited n, s') \<Rightarrow> (Exited n, s')
     | (Blocked, s') \<Rightarrow> (Blocked, s'))"

text \<open>
  \<^verbatim>\<open>try: m except OSError as e: h e\<close>. An exception that is not an \<^verbatim>\<open>OSError\<close> passes
  through.
\<close>

definition io_try :: "'a io \<Rightarrow> (exn \<Rightarrow> 'a io) \<Rightarrow> 'a io" where
  "io_try m h = (\<lambda>s. case m s of
       (Raised (OSError n), s') \<Rightarrow> h (OSError n) s'
     | r \<Rightarrow> r)"

definition emit :: "event \<Rightarrow> unit io" where
  "emit ev = (\<lambda>s. (Val (), s\<lparr>trace := trace s @ [ev]\<rparr>))"

definition set_sock :: "sock \<Rightarrow> sock_state \<Rightarrow> unit io" where
  "set_sock k st = (\<lambda>s. (Val (), s\<lparr>sockets := (sockets s)(k \<mapsto> st)\<rparr>))"

text \<open>A call that the environment answers with an errno raises \<^verbatim>\<open>OSError\<close>.\<close>

definition answered :: "errno option \<Rightarrow> unit io" where
  "answered r = (case r of None \<Rightarrow> io_return () | Some n \<Rightarrow> io_raise (OSError n))"

text \<open>A call that the environment answers with an exception raises it.\<close>

definition answered_exn :: "exn option \<Rightarrow> unit io" where
  "answered_exn r = (case r of None \<Rightarrow> io_return () | Some e \<Rightarrow> io_raise e)"

subsection \<open>Connections and the calls on them\<close>

text \<open>
  A connection as \<^verbatim>\<open>accept\<close> hands it out, with the answers of the environment to the
  calls made while the connection is handled: \<open>incoming\<close> is what the first \<^verbatim>\<open>recv\<close> finds
  (the bytes the peer has sent, \<open>[]\<close> when the peer has closed without sending, or the errno
  \<^verbatim>\<open>recv\<close> fails with); \<open>print_answer\<close> is the exception that the \<^verbatim>\<open>print\<close> of given
  request bytes raises, if any; \<open>sendall_answer\<close> is the errno \<^verbatim>\<open>sendall\<close> fails with on
  given data, if any. A child handles one connection, so the answers of the child's standard
  output are kept with the connection.
\<close>

record conn =
  conn_id :: nat
  incoming :: "errno + bytes"
  print_answer :: "bytes \<Rightarrow> exn option"
  sendall_answer :: "bytes \<Rightarrow> errno option"

text \<open>\<^verbatim>\<open>conn.recv(bufsize)\<close>: at most \<open>bufsize\<close> of the incoming bytes.\<close>

definition recv :: "conn \<Rightarrow> nat \<Rightarrow> bytes io" where
  "recv c bufsize =
     io_bind (emit (Recv (ClientConn (conn_id c)) bufsize)) (\<lambda>_.
       case incoming c of
         Inl n \<Rightarrow> io_raise (OSError n)
       | Inr data \<Rightarrow> io_return (take bufsize data))"

text \<open>
  \<^verbatim>\<open>conn.sendall(data)\<close>: the call asks for all of \<open>data\<close> to be written; it returns once
  all of it is written, and raises otherwise.
\<close>

definition sendall :: "conn \<Rightarrow> bytes \<Rightarrow> unit io" where
  "sendall c data =
     io_bind (emit (Sendall (ClientConn (conn_id c)) data)) (\<lambda>_.
       answered (sendall_answer c data))"

text \<open>
  \<^verbatim>\<open>print(request.decode(errors="ignore"))\<close>: the event keeps the bytes that are decoded
  and printed. Decoding with \<^verbatim>\<open>errors="ignore"\<close> does not raise; \<^verbatim>\<open>print\<close> raises what
  standard output answers for these bytes.
\<close>

definition print_decoded :: "conn \<Rightarrow> bytes \<Rightarrow> unit io" where
  "print_decoded c request =
     io_bind (emit (Print_decoded request)) (\<lambda>_.
       answered_exn (print_answer c request))"

definition close :: "sock \<Rightarrow> unit io" where
  "close k = io_bind (emit (Close k)) (\<lambda>_. set_sock k Closed)"

subsection \<open>\<^verbatim>\<open>handle_request\<close>\<close>

text \<open>
  The bytes literal of the source starts with a backslash at the end of its first line, so
  it has no leading newline; its lines end in LF.
\<close>

definition response :: bytes where
  "response =
     ''HTTP/1.1 200 OK'' @ [CHR 0x0A] @
     ''Content-Type: text/plain'' @ [CHR 0x0A] @
     [CHR 0x0A] @
     ''Hello, World!'' @ [CHR 0x0A]"

definition handle_request :: "conn \<Rightarrow> unit io" where
  "handle_request c =
     io_bind (recv c BUFFER_SIZE) (\<lambda>request.
       if request = [] then io_return ()
       else
         io_bind (print_decoded c request) (\<lambda>_.
         sendall c response))"

text \<open>
  The data that a run handed to \<^verbatim>\<open>sendall\<close> on a socket, call by call. It is what the run
  wrote there when these calls returned; of the data of a \<^verbatim>\<open>sendall\<close> that raised, how
  much went out is not known.
\<close>

fun written_to :: "sock \<Rightarrow> event list \<Rightarrow> bytes list" where
  "written_to k [] = []"
| "written_to k (Sendall k' data # evs) =
     (if k' = k then data # written_to k evs else written_to k evs)"
| "written_to k (_ # evs) = written_to k evs"

text \<open>The calls of a run on a socket.\<close>

fun on_sock :: "sock \<Rightarrow> event \<Rightarrow> bool" where
  "on_sock k Socket_AF_INET_SOCK_STREAM = (k = ListenSocket)"
| "on_sock k (Setsockopt_SOL_SOCKET_SO_REUSEADDR _) = (k = ListenSocket)"
| "on_sock k (Bind _ _) = (k = ListenSocket)"
| "on_sock k (Listen _) = (k = ListenSocket)"
| "on_sock k Accept = (k = ListenSocket)"
| "on_sock k (Close k') = (k' = k)"
| "on_sock k (Recv k' _) = (k' = k)"
| "on_sock k (Sendall k' _) = (k' = k)"
| "on_sock k (Print _) = False"
| "on_sock k (Print_decoded _) = False"
| "on_sock k Signal_SIGCHLD_reap_children = False"
| "on_sock k Fork = False"
| "on_sock k (Os_exit _) = False"

text \<open>The calls that running \<open>m\<close> from state \<open>s\<close> adds to the trace.\<close>

definition new_events :: "'a io \<Rightarrow> process \<Rightarrow> event list" where
  "new_events m s = drop (length (trace s)) (trace (snd (m s)))"

text \<open>A process that has issued no call yet and holds no socket.\<close>

definition fresh_process :: process where
  "fresh_process = \<lparr>sockets = Map.empty, reuseaddr = False, sigchld_reaper = False, trace = []\<rparr>"

subsection \<open>The calls of \<^verbatim>\<open>serve_forever\<close>\<close>

text \<open>
  The answers of the environment to one pass through the accept loop: what \<^verbatim>\<open>accept\<close>
  returns (the connection and the peer's address) or fails with, and what \<^verbatim>\<open>os.fork\<close>
  returns in the process modelled (\<open>0\<close> in the child, the child's pid in the parent) or
  fails with. The answers to the start-up calls and to the passes through the loop make up
  a \<open>world\<close>.
\<close>

type_synonym addr = "string \<times> nat"

record iteration =
  accept_answer :: "errno + conn \<times> addr"
  fork_answer :: "errno + pid"

record world =
  socket_answer :: "errno option"
  setsockopt_answer :: "errno option"
  bind_answer :: "errno option"
  listen_answer :: "errno option"
  iterations :: "iteration list"

definition socket_create :: "errno option \<Rightarrow> sock io" where
  "socket_create r =
     io_bind (emit Socket_AF_INET_SOCK_STREAM) (\<lambda>_.
     io_bind (answered r) (\<lambda>_.
     io_bind (set_sock ListenSocket Created) (\<lambda>_.
     io_return ListenSocket)))"

definition setsockopt_reuseaddr :: "int \<Rightarrow> errno option \<Rightarrow> unit io" where
  "setsockopt_reuseaddr v r =
     io_bind (emit (Setsockopt_SOL_SOCKET_SO_REUSEADDR v)) (\<lambda>_.
     io_bind (answered r) (\<lambda>_.
     (\<lambda>s. (Val (), s\<lparr>reuseaddr := (v \<noteq> 0)\<rparr>))))"

definition bind_to :: "string \<Rightarrow> nat \<Rightarrow> errno option \<Rightarrow> unit io" where
  "bind_to host port r =
     io_bind (emit (Bind host port)) (\<lambda>_.
     io_bind (answered r) (\<lambda>_.
     set_sock ListenSocket (Bound host port)))"

text \<open>Listening on a socket that was never bound leaves the address to the kernel.\<close>

definition listen :: "nat \<Rightarrow> errno option \<Rightarrow> unit io" where
  "listen backlog r =
     io_bind (emit (Listen backlog)) (\<lambda>_.
     io_bind (answered r) (\<lambda>_.
     (\<lambda>s. set_sock ListenSocket
        (case sockets s ListenSocket of
           Some (Bound host port) \<Rightarrow> Listening host port backlog
         | _ \<Rightarrow> Listening [] 0 backlog) s)))"

definition print :: "string \<Rightarrow> unit io" where
  "print text = emit (Print text)"

definition signal_SIGCHLD_reap_children :: "unit io" where
  "signal_SIGCHLD_reap_children =
     io_bind (emit Signal_SIGCHLD_reap_children) (\<lambda>_.
     (\<lambda>s. (Val (), s\<lparr>sigchld_reaper := True\<rparr>)))"

definition accept :: "errno + conn \<times> addr \<Rightarrow> (conn \<times> addr) io" where
  "accept r =
     io_bind (emit Accept) (\<lambda>_.
       case r of
         Inl n \<Rightarrow> io_raise (OSError n)
       | Inr (c, a) \<Rightarrow>
           io_bind (set_sock (ClientConn (conn_id c)) Connected) (\<lambda>_.
           io_return (c, a)))"

definition fork :: "errno + pid \<Rightarrow> pid io" where
  "fork r =
     io_bind (emit Fork) (\<lambda>_.
       case r of
         Inl n \<Rightarrow> io_raise (OSError n)
       | Inr p \<Rightarrow> io_return p)"

text \<open>\<^verbatim>\<open>os._exit(n)\<close> ends the process; nothing after it runs.\<close>

definition os_exit :: "int \<Rightarrow> 'a io" where
  "os_exit n = io_bind (emit (Os_exit n)) (\<lambda>_ s. (Exited n, s))"

subsection \<open>\<^verbatim>\<open>serve_forever\<close>\<close>

text \<open>
  The body of \<^verbatim>\<open>while True\<close>. The \<^verbatim>\<open>try\<close> covers \<^verbatim>\<open>accept\<close> only; \<^verbatim>\<open>continue\<close> ends
  the pass (the value \<open>None\<close> of the \<^verbatim>\<open>try\<close>), and the bare \<^verbatim>\<open>raise\<close> raises the exception
  caught again. The same body runs in the parent and in the child: they differ in what
  \<^verbatim>\<open>os.fork\<close> returned.
\<close>

definition loop_body :: "iteration \<Rightarrow> unit io" where
  "loop_body it =
     io_bind
       (io_try
          (io_bind (accept (accept_answer it)) (\<lambda>accepted. io_return (Some accepted)))
          (\<lambda>e. if errno_of e = EINTR then io_return None else io_raise e))
       (\<lambda>accepted. case accepted of
          None \<Rightarrow> io_return ()
        | Some (client_conn, client_addr) \<Rightarrow>
            io_bind (fork (fork_answer it)) (\<lambda>pid.
              if pid = 0 then
                io_bind (close ListenSocket) (\<lambda>_.
                io_bind (handle_request client_conn) (\<lambda>_.
                io_bind (close (ClientConn (conn_id client_conn))) (\<lambda>_.
                os_exit 0)))
              else
                close (ClientConn (conn_id client_conn))))"

text \<open>
  The loop never ends by itself. It runs one pass for each answer of the environment; when
  the answers are used up the process is blocked in \<^verbatim>\<open>accept\<close>.
\<close>

primrec serve_loop :: "iteration list \<Rightarrow> unit io" where
  "serve_loop [] = (\<lambda>s. (Blocked, s))"
| "serve_loop (it # its) = io_bind (loop_body it) (\<lambda>_. serve_loop its)"

definition startup :: "world \<Rightarrow> unit io" where
  "startup w =
     io_bind (socket_create (socket_answer w)) (\<lambda>listen_socket.
     io_bind (setsockopt_reuseaddr 1 (setsockopt_answer w)) (\<lambda>_.
     io_bind (bind_to HOST PORT (bind_answer w)) (\<lambda>_.
     listen REQUEST_QUEUE_SIZE (listen_answer w))))"

text \<open>Python's \<^verbatim>\<open>str\<close> on a natural number, for the f-string of the banner.\<close>

fun str :: "nat \<Rightarrow> string" where
  "str n =
     (if n < 10 then [char_of (48 + n)]
      else str (n div 10) @ [char_of (48 + n mod 10)])"

declare str.simps [simp del]

definition serve_forever :: "world \<Rightarrow> unit io" where
  "serve_forever w =
     io_bind (startup w) (\<lambda>_.
     io_bind (print (''Serving HTTP on port '' @ str PORT @ '' ...'')) (\<lambda>_.
     io_bind signal_SIGCHLD_reap_children (\<lambda>_.
     serve_loop (iterations w))))"

text \<open>
  The exit status of the process that runs \<^verbatim>\<open>serve_forever()\<close> as its main program: the
  argument of \<^verbatim>\<open>os._exit\<close>, or 1 when an exception reaches the top level uncaught. A blocked
  process has not exited.
\<close>

fun exit_status :: "unit outcome \<Rightarrow> int option" where
  "exit_status (Val _) = Some 0"
| "exit_status (Raised _) = Some 1"
| "exit_status (Exited n) = Some n"
| "exit_status Blocked = None"

subsection \<open>\<^verbatim>\<open>reap_children\<close>\<close>

text \<open>
  \<^verbatim>\<open>os.waitpid(pid, options)\<close> is a parameter: a transition on the state \<open>'k\<close> of the kernel
  that returns \<^verbatim>\<open>(pid, status)\<close>, raises \<^verbatim>\<open>OSError\<close> with an errno (the one exception
  \<^verbatim>\<open>os.waitpid\<close> raises), or blocks. The handler ignores its arguments \<^verbatim>\<open>signum\<close> and
  \<^verbatim>\<open>frame\<close>. The loop may run forever (\<open>None\<close>) if the kernel keeps handing out children.
\<close>

datatype wait_answer = Returns pid int | Raises_OSError errno | Blocks

type_synonym 'k waitpid = "int \<Rightarrow> int \<Rightarrow> 'k \<Rightarrow> wait_answer \<times> 'k"

partial_function (option) reap_children ::
    "'k waitpid \<Rightarrow> int \<Rightarrow> unit \<Rightarrow> 'k \<Rightarrow> (unit outcome \<times> 'k) option" where
  "reap_children waitpid signum frame k =
     (case waitpid (- 1) WNOHANG k of
        (Returns pid status, k') \<Rightarrow>
          if pid = 0 then Some (Val (), k')
          else reap_children waitpid signum frame k'
      | (Raises_OSError n, k') \<Rightarrow> Some (Val (), k')
      | (Blocks, k') \<Rightarrow> Some (Blocked, k'))"

declare reap_children.simps [code]

text \<open>
  The kernel's side of \<^verbatim>\<open>waitpid\<close>, after POSIX: the state is the table of the caller's
  children, each running or terminated and not yet waited for. With no child to wait for the
  call fails with \<^verbatim>\<open>ECHILD\<close>; a terminated child is removed from the table and returned;
  with children but none terminated the call returns \<^verbatim>\<open>(0, 0)\<close> under \<^verbatim>\<open>WNOHANG\<close> and
  blocks otherwise. \<open>pid = -1\<close> waits for any child, a positive \<open>pid\<close> for that child.
\<close>

datatype child_state = Running | Terminated int

type_synonym children = "(pid \<times> child_state) list"

definition is_terminated :: "pid \<times> child_state \<Rightarrow> bool" where
  "is_terminated c = (case snd c of Running \<Rightarrow> False | Terminated _ \<Rightarrow> True)"

definition posix_waitpid :: "children waitpid" where
  "posix_waitpid p options tbl =
     (let candidates = filter (\<lambda>c. p = - 1 \<or> fst c = p) tbl in
      if candidates = [] then (Raises_OSError ECHILD, tbl)
      else
        (case List.find is_terminated candidates of
           Some (q, Terminated status) \<Rightarrow> (Returns q status, remove1 (q, Terminated status) tbl)
         | _ \<Rightarrow> if options = WNOHANG then (Returns 0 0, tbl) else (Blocks, tbl)))"

subsection \<open>Calls of the parent\<close>

text \<open>
  The calls the parent issues in the accept loop: \<^verbatim>\<open>accept\<close>, \<^verbatim>\<open>fork\<close>, and \<^verbatim>\<open>close\<close> on
  a connection.
\<close>

fun parent_call :: "event \<Rightarrow> bool" where
  "parent_call Accept = True"
| "parent_call Fork = True"
| "parent_call (Close (ClientConn _)) = True"
| "parent_call _ = False"

definition parent_calls :: "event list \<Rightarrow> bool" where
  "parent_calls evs = list_all parent_call evs"

section \<open>Properties\<close>

subsection \<open>Unfolding the calls\<close>

lemmas io_defs = io_return_def io_raise_def io_bind_def io_try_def emit_def set_sock_def
  answered_def answered_exn_def

lemmas call_defs = recv_def sendall_def print_decoded_def close_def accept_def fork_def
  os_exit_def

lemmas startup_defs = startup_def socket_create_def setsockopt_reuseaddr_def bind_to_def
  listen_def print_def signal_SIGCHLD_reap_children_def

lemma trace_sockets_swap:
  "s\<lparr>trace := t, sockets := k\<rparr> = s\<lparr>sockets := k, trace := t\<rparr>"
  by simp

lemma trace_reaper_swap:
  "s\<lparr>trace := t, sigchld_reaper := b\<rparr> = s\<lparr>sigchld_reaper := b, trace := t\<rparr>"
  by simp

lemma new_events_append [simp]:
  "trace (snd (m s)) = trace s @ evs \<Longrightarrow> new_events m s = evs"
  by (simp add: new_events_def)

subsection \<open>The ways through \<^verbatim>\<open>handle_request\<close>\<close>

lemma handle_request_empty:
  "incoming c = Inr [] \<Longrightarrow>
     handle_request c s = (Val (), s\<lparr>trace := trace s @ [Recv (ClientConn (conn_id c)) 1024]\<rparr>)"
  by (simp add: handle_request_def io_defs call_defs BUFFER_SIZE_def)

lemma handle_request_recv_error:
  "incoming c = Inl n \<Longrightarrow>
     handle_request c s =
       (Raised (OSError n), s\<lparr>trace := trace s @ [Recv (ClientConn (conn_id c)) 1024]\<rparr>)"
  by (simp add: handle_request_def io_defs call_defs BUFFER_SIZE_def)

lemma handle_request_print_error:
  "incoming c = Inr data \<Longrightarrow> data \<noteq> [] \<Longrightarrow> print_answer c (take 1024 data) = Some e \<Longrightarrow>
     handle_request c s =
       (Raised e,
        s\<lparr>trace := trace s @
           [Recv (ClientConn (conn_id c)) 1024, Print_decoded (take 1024 data)]\<rparr>)"
  by (simp add: handle_request_def io_defs call_defs BUFFER_SIZE_def)

lemma handle_request_nonempty:
  "incoming c = Inr data \<Longrightarrow> data \<noteq> [] \<Longrightarrow> print_answer c (take 1024 data) = None \<Longrightarrow>
     handle_request c s =
       ((case sendall_answer c response of None \<Rightarrow> Val () | Some n \<Rightarrow> Raised (OSError n)),
        s\<lparr>trace := trace s @
           [Recv (ClientConn (conn_id c)) 1024, Print_decoded (take 1024 data),
            Sendall (ClientConn (conn_id c)) response]\<rparr>)"
  by (simp add: handle_request_def io_defs call_defs BUFFER_SIZE_def split: option.splits)





text \<open>
  C2. When the read yields zero bytes, \<^verbatim>\<open>handle_request\<close> returns at once: the
  \<^verbatim>\<open>recv\<close> is its only call, and it writes nothing to any socket.
\<close>

theorem handle_request_empty_read_writes_nothing:
  assumes "incoming c = Inr []"
  shows "handle_request c s =
           (Val (), s\<lparr>trace := trace s @ [Recv (ClientConn (conn_id c)) BUFFER_SIZE]\<rparr>) \<and>
         written_to k (new_events (handle_request c) s) = []"
  using assms by (simp add: handle_request_empty BUFFER_SIZE_def)

theorem handle_request_empty_read_writes_nothing_witness:
  "incoming \<lparr>conn_id = 3, incoming = Inr [],
       print_answer = (\<lambda>_. None), sendall_answer = (\<lambda>_. None)\<rparr> = Inr [] \<and>
   fst (handle_request \<lparr>conn_id = 3, incoming = Inr [],
       print_answer = (\<lambda>_. None), sendall_answer = (\<lambda>_. None)\<rparr>
          fresh_process) = Val () \<and>
   written_to (ClientConn 3)
     (new_events
        (handle_request \<lparr>conn_id = 3, incoming = Inr [],
       print_answer = (\<lambda>_. None), sendall_answer = (\<lambda>_. None)\<rparr>)
        fresh_process) = []"
  using handle_request_empty_read_writes_nothing
    [of "\<lparr>conn_id = 3, incoming = Inr [],
       print_answer = (\<lambda>_. None), sendall_answer = (\<lambda>_. None)\<rparr>"
        fresh_process "ClientConn 3"]
  by simp

text \<open>
  C6, as stated, fails. Two connections are handled on the same standard output, one that
  cannot encode \<^verbatim>\<open>e\<close> with an acute accent. Both first reads are non-empty: \<^verbatim>\<open>cafe\<close>, and
  \<^verbatim>\<open>caf\<close> followed by the two bytes of that character in UTF-8. The first gets the fixed
  response; on the second the \<^verbatim>\<open>print\<close> raises and nothing is written. What is written
  depends on the content of the request.
\<close>

theorem handle_request_response_independent_of_request_counterexample:
  "incoming
     \<lparr>conn_id = 1, incoming = Inr ''cafe'',
       print_answer =
         (\<lambda>text. if text = ''caf'' @ [CHR 0xC3, CHR 0xA9] then Some UnicodeEncodeError
                  else None),
       sendall_answer = (\<lambda>_. None)\<rparr> = Inr ''cafe'' \<and>
   ''cafe'' \<noteq> [] \<and>
   incoming
     \<lparr>conn_id = 2, incoming = Inr (''caf'' @ [CHR 0xC3, CHR 0xA9]),
       print_answer =
         (\<lambda>text. if text = ''caf'' @ [CHR 0xC3, CHR 0xA9] then Some UnicodeEncodeError
                  else None),
       sendall_answer = (\<lambda>_. None)\<rparr> = Inr (''caf'' @ [CHR 0xC3, CHR 0xA9]) \<and>
   ''caf'' @ [CHR 0xC3, CHR 0xA9] \<noteq> [] \<and>
   print_answer
     \<lparr>conn_id = 1, incoming = Inr ''cafe'',
       print_answer =
         (\<lambda>text. if text = ''caf'' @ [CHR 0xC3, CHR 0xA9] then Some UnicodeEncodeError
                  else None),
       sendall_answer = (\<lambda>_. None)\<rparr> =
   print_answer
     \<lparr>conn_id = 2, incoming = Inr (''caf'' @ [CHR 0xC3, CHR 0xA9]),
       print_answer =
         (\<lambda>text. if text = ''caf'' @ [CHR 0xC3, CHR 0xA9] then Some UnicodeEncodeError
                  else None),
       sendall_answer = (\<lambda>_. None)\<rparr> \<and>
   written_to (ClientConn 1)
     (new_events
        (handle_request
           \<lparr>conn_id = 1, incoming = Inr ''cafe'',
       print_answer =
         (\<lambda>text. if text = ''caf'' @ [CHR 0xC3, CHR 0xA9] then Some UnicodeEncodeError
                  else None),
       sendall_answer = (\<lambda>_. None)\<rparr>)
        fresh_process) =
     [''HTTP/1.1 200 OK'' @ [CHR 0x0A] @
              ''Content-Type: text/plain'' @ [CHR 0x0A] @
              [CHR 0x0A] @
              ''Hello, World!'' @ [CHR 0x0A]] \<and>
   written_to (ClientConn 2)
     (new_events
        (handle_request
           \<lparr>conn_id = 2, incoming = Inr (''caf'' @ [CHR 0xC3, CHR 0xA9]),
       print_answer =
         (\<lambda>text. if text = ''caf'' @ [CHR 0xC3, CHR 0xA9] then Some UnicodeEncodeError
                  else None),
       sendall_answer = (\<lambda>_. None)\<rparr>)
        fresh_process) = [] \<and>
   written_to (ClientConn 1)
     (new_events
        (handle_request
           \<lparr>conn_id = 1, incoming = Inr ''cafe'',
       print_answer =
         (\<lambda>text. if text = ''caf'' @ [CHR 0xC3, CHR 0xA9] then Some UnicodeEncodeError
                  else None),
       sendall_answer = (\<lambda>_. None)\<rparr>)
        fresh_process) \<noteq>
   written_to (ClientConn 2)
     (new_events
        (handle_request
           \<lparr>conn_id = 2, incoming = Inr (''caf'' @ [CHR 0xC3, CHR 0xA9]),
       print_answer =
         (\<lambda>text. if text = ''caf'' @ [CHR 0xC3, CHR 0xA9] then Some UnicodeEncodeError
                  else None),
       sendall_answer = (\<lambda>_. None)\<rparr>)
        fresh_process)"
  by (simp add: handle_request_def io_defs call_defs BUFFER_SIZE_def new_events_def
      fresh_process_def response_def)

text \<open>
  C6, amended. For two connections whose first reads are non-empty and on which neither the
  \<^verbatim>\<open>print\<close> of the request nor \<^verbatim>\<open>sendall\<close> raises, the bytes written are the same, the
  fixed 200 response, and \<^verbatim>\<open>handle_request\<close> returns on both, whatever the two requests are
  and however long. More generally the request reaches the outcome only through the answer
  of \<^verbatim>\<open>print\<close>: with the same answers of \<^verbatim>\<open>print\<close> and of \<^verbatim>\<open>sendall\<close>, two non-empty
  reads give the same bytes written and the same outcome.
\<close>

theorem handle_request_response_independent_of_request:
  assumes "incoming c1 = Inr d1" and "d1 \<noteq> []" and "incoming c2 = Inr d2" and "d2 \<noteq> []"
  shows "(print_answer c1 (take BUFFER_SIZE d1) = None \<and> sendall_answer c1 response = None \<and>
          print_answer c2 (take BUFFER_SIZE d2) = None \<and> sendall_answer c2 response = None \<longrightarrow>
            written_to (ClientConn (conn_id c1)) (new_events (handle_request c1) s1) =
              [''HTTP/1.1 200 OK'' @ [CHR 0x0A] @
              ''Content-Type: text/plain'' @ [CHR 0x0A] @
              [CHR 0x0A] @
              ''Hello, World!'' @ [CHR 0x0A]] \<and>
            written_to (ClientConn (conn_id c2)) (new_events (handle_request c2) s2) =
              [''HTTP/1.1 200 OK'' @ [CHR 0x0A] @
              ''Content-Type: text/plain'' @ [CHR 0x0A] @
              [CHR 0x0A] @
              ''Hello, World!'' @ [CHR 0x0A]] \<and>
            fst (handle_request c1 s1) = Val () \<and>
            fst (handle_request c2 s2) = Val ()) \<and>
         (print_answer c1 (take BUFFER_SIZE d1) = print_answer c2 (take BUFFER_SIZE d2) \<and>
          sendall_answer c1 response = sendall_answer c2 response \<longrightarrow>
            written_to (ClientConn (conn_id c1)) (new_events (handle_request c1) s1) =
              written_to (ClientConn (conn_id c2)) (new_events (handle_request c2) s2) \<and>
            fst (handle_request c1 s1) = fst (handle_request c2 s2))"
proof (intro conjI impI)
  assume ok: "print_answer c1 (take BUFFER_SIZE d1) = None \<and> sendall_answer c1 response = None \<and>
      print_answer c2 (take BUFFER_SIZE d2) = None \<and> sendall_answer c2 response = None"
  with assms show
    "written_to (ClientConn (conn_id c1)) (new_events (handle_request c1) s1) =
       [''HTTP/1.1 200 OK'' @ [CHR 0x0A] @
              ''Content-Type: text/plain'' @ [CHR 0x0A] @
              [CHR 0x0A] @
              ''Hello, World!'' @ [CHR 0x0A]]"
    and "written_to (ClientConn (conn_id c2)) (new_events (handle_request c2) s2) =
       [''HTTP/1.1 200 OK'' @ [CHR 0x0A] @
              ''Content-Type: text/plain'' @ [CHR 0x0A] @
              [CHR 0x0A] @
              ''Hello, World!'' @ [CHR 0x0A]]"
    and "fst (handle_request c1 s1) = Val ()"
    and "fst (handle_request c2 s2) = Val ()"
    by (simp_all add: handle_request_nonempty BUFFER_SIZE_def response_def)
next
  assume same: "print_answer c1 (take BUFFER_SIZE d1) = print_answer c2 (take BUFFER_SIZE d2) \<and>
      sendall_answer c1 response = sendall_answer c2 response"
  then have sa: "sendall_answer c1 response = sendall_answer c2 response" by simp
  have both: "written_to (ClientConn (conn_id c1)) (new_events (handle_request c1) s1) =
      written_to (ClientConn (conn_id c2)) (new_events (handle_request c2) s2) \<and>
      fst (handle_request c1 s1) = fst (handle_request c2 s2)"
  proof (cases "print_answer c1 (take 1024 d1)")
    case None
    with same have p2: "print_answer c2 (take 1024 d2) = None"
      by (simp add: BUFFER_SIZE_def)
    show ?thesis
      by (simp add: handle_request_nonempty [OF assms(1,2) None]
          handle_request_nonempty [OF assms(3,4) p2] sa)
  next
    case (Some e)
    with same have p2: "print_answer c2 (take 1024 d2) = Some e"
      by (simp add: BUFFER_SIZE_def)
    show ?thesis
      by (simp add: handle_request_print_error [OF assms(1,2) Some]
          handle_request_print_error [OF assms(3,4) p2])
  qed
  from both show "written_to (ClientConn (conn_id c1)) (new_events (handle_request c1) s1) =
      written_to (ClientConn (conn_id c2)) (new_events (handle_request c2) s2)" ..
  from both show "fst (handle_request c1 s1) = fst (handle_request c2 s2)" ..
qed

theorem handle_request_response_independent_of_request_witness:
  "incoming \<lparr>conn_id = 1, incoming = Inr ''GET / HTTP/1.1'',
       print_answer = (\<lambda>_. None), sendall_answer = (\<lambda>_. None)\<rparr> = Inr ''GET / HTTP/1.1'' \<and>
   incoming \<lparr>conn_id = 2, incoming = Inr ''x'',
       print_answer = (\<lambda>_. None), sendall_answer = (\<lambda>_. None)\<rparr> = Inr ''x'' \<and>
   ''GET / HTTP/1.1'' \<noteq> ''x'' \<and>
   written_to (ClientConn 1)
     (new_events
        (handle_request
           \<lparr>conn_id = 1, incoming = Inr ''GET / HTTP/1.1'',
       print_answer = (\<lambda>_. None), sendall_answer = (\<lambda>_. None)\<rparr>)
        fresh_process) =
     [''HTTP/1.1 200 OK'' @ [CHR 0x0A] @
              ''Content-Type: text/plain'' @ [CHR 0x0A] @
              [CHR 0x0A] @
              ''Hello, World!'' @ [CHR 0x0A]] \<and>
   written_to (ClientConn 2)
     (new_events
        (handle_request \<lparr>conn_id = 2, incoming = Inr ''x'',
       print_answer = (\<lambda>_. None), sendall_answer = (\<lambda>_. None)\<rparr>)
        fresh_process) =
     [''HTTP/1.1 200 OK'' @ [CHR 0x0A] @
              ''Content-Type: text/plain'' @ [CHR 0x0A] @
              [CHR 0x0A] @
              ''Hello, World!'' @ [CHR 0x0A]] \<and>
   fst (handle_request
          \<lparr>conn_id = 1, incoming = Inr ''GET / HTTP/1.1'',
       print_answer = (\<lambda>_. None), sendall_answer = (\<lambda>_. None)\<rparr>
          fresh_process) =
   fst (handle_request \<lparr>conn_id = 2, incoming = Inr ''x'',
       print_answer = (\<lambda>_. None), sendall_answer = (\<lambda>_. None)\<rparr>
          fresh_process)"
  using handle_request_response_independent_of_request
    [of "\<lparr>conn_id = 1, incoming = Inr ''GET / HTTP/1.1'',
       print_answer = (\<lambda>_. None), sendall_answer = (\<lambda>_. None)\<rparr>"
        "''GET / HTTP/1.1''"
        "\<lparr>conn_id = 2, incoming = Inr ''x'',
       print_answer = (\<lambda>_. None), sendall_answer = (\<lambda>_. None)\<rparr>"
        "''x''" fresh_process fresh_process]
  by simp

subsection \<open>The ways through one pass of the accept loop\<close>

lemma loop_body_eintr:
  "accept_answer it = Inl EINTR \<Longrightarrow>
     loop_body it s = (Val (), s\<lparr>trace := trace s @ [Accept]\<rparr>)"
  by (simp add: loop_body_def io_defs call_defs)

lemma loop_body_accept_error:
  "accept_answer it = Inl n \<Longrightarrow> n \<noteq> EINTR \<Longrightarrow>
     loop_body it s = (Raised (OSError n), s\<lparr>trace := trace s @ [Accept]\<rparr>)"
  by (simp add: loop_body_def io_defs call_defs)

lemma loop_body_fork_error:
  "accept_answer it = Inr (c, a) \<Longrightarrow> fork_answer it = Inl n \<Longrightarrow>
     loop_body it s =
       (Raised (OSError n),
        s\<lparr>sockets := (sockets s)(ClientConn (conn_id c) \<mapsto> Connected),
          trace := trace s @ [Accept, Fork]\<rparr>)"
  by (simp add: loop_body_def io_defs call_defs)

lemma loop_body_parent:
  "accept_answer it = Inr (c, a) \<Longrightarrow> fork_answer it = Inr p \<Longrightarrow> p \<noteq> 0 \<Longrightarrow>
     loop_body it s =
       (Val (),
        s\<lparr>sockets := (sockets s)(ClientConn (conn_id c) \<mapsto> Closed),
          trace := trace s @ [Accept, Fork, Close (ClientConn (conn_id c))]\<rparr>)"
  by (simp add: loop_body_def io_defs call_defs)

lemma loop_body_child:
  "accept_answer it = Inr (c, a) \<Longrightarrow> fork_answer it = Inr 0 \<Longrightarrow>
     loop_body it s =
       io_bind (handle_request c) (\<lambda>_.
         io_bind (close (ClientConn (conn_id c))) (\<lambda>_. os_exit 0))
         (s\<lparr>sockets := (sockets s)(ClientConn (conn_id c) \<mapsto> Connected, ListenSocket \<mapsto> Closed),
            trace := trace s @ [Accept, Fork, Close ListenSocket]\<rparr>)"
  by (simp add: loop_body_def io_defs call_defs trace_sockets_swap)

lemma child_empty:
  "accept_answer it = Inr (c, a) \<Longrightarrow> fork_answer it = Inr 0 \<Longrightarrow> incoming c = Inr [] \<Longrightarrow>
     loop_body it s =
       (Exited 0,
        s\<lparr>sockets := (sockets s)(ListenSocket \<mapsto> Closed, ClientConn (conn_id c) \<mapsto> Closed),
          trace := trace s @ [Accept, Fork, Close ListenSocket,
            Recv (ClientConn (conn_id c)) 1024,
            Close (ClientConn (conn_id c)), Os_exit 0]\<rparr>)"
  by (simp add: loop_body_child handle_request_empty io_defs call_defs fun_upd_twist)

lemma child_served:
  "accept_answer it = Inr (c, a) \<Longrightarrow> fork_answer it = Inr 0 \<Longrightarrow> incoming c = Inr data \<Longrightarrow>
   data \<noteq> [] \<Longrightarrow> print_answer c (take 1024 data) = None \<Longrightarrow>
   sendall_answer c response = None \<Longrightarrow>
     loop_body it s =
       (Exited 0,
        s\<lparr>sockets := (sockets s)(ListenSocket \<mapsto> Closed, ClientConn (conn_id c) \<mapsto> Closed),
          trace := trace s @ [Accept, Fork, Close ListenSocket,
            Recv (ClientConn (conn_id c)) 1024, Print_decoded (take 1024 data),
            Sendall (ClientConn (conn_id c)) response,
            Close (ClientConn (conn_id c)), Os_exit 0]\<rparr>)"
  by (simp add: loop_body_child handle_request_nonempty io_defs call_defs fun_upd_twist)

lemma child_recv_error:
  "accept_answer it = Inr (c, a) \<Longrightarrow> fork_answer it = Inr 0 \<Longrightarrow> incoming c = Inl n \<Longrightarrow>
     loop_body it s =
       (Raised (OSError n),
        s\<lparr>sockets := (sockets s)(ClientConn (conn_id c) \<mapsto> Connected, ListenSocket \<mapsto> Closed),
          trace := trace s @ [Accept, Fork, Close ListenSocket,
            Recv (ClientConn (conn_id c)) 1024]\<rparr>)"
  by (simp add: loop_body_child handle_request_recv_error io_defs call_defs)

lemma child_print_error:
  "accept_answer it = Inr (c, a) \<Longrightarrow> fork_answer it = Inr 0 \<Longrightarrow> incoming c = Inr data \<Longrightarrow>
   data \<noteq> [] \<Longrightarrow> print_answer c (take 1024 data) = Some e \<Longrightarrow>
     loop_body it s =
       (Raised e,
        s\<lparr>sockets := (sockets s)(ClientConn (conn_id c) \<mapsto> Connected, ListenSocket \<mapsto> Closed),
          trace := trace s @ [Accept, Fork, Close ListenSocket,
            Recv (ClientConn (conn_id c)) 1024, Print_decoded (take 1024 data)]\<rparr>)"
  by (simp add: loop_body_child handle_request_print_error io_defs call_defs)

lemma child_sendall_error:
  "accept_answer it = Inr (c, a) \<Longrightarrow> fork_answer it = Inr 0 \<Longrightarrow> incoming c = Inr data \<Longrightarrow>
   data \<noteq> [] \<Longrightarrow> print_answer c (take 1024 data) = None \<Longrightarrow>
   sendall_answer c response = Some n \<Longrightarrow>
     loop_body it s =
       (Raised (OSError n),
        s\<lparr>sockets := (sockets s)(ClientConn (conn_id c) \<mapsto> Connected, ListenSocket \<mapsto> Closed),
          trace := trace s @ [Accept, Fork, Close ListenSocket,
            Recv (ClientConn (conn_id c)) 1024, Print_decoded (take 1024 data),
            Sendall (ClientConn (conn_id c)) response]\<rparr>)"
  by (simp add: loop_body_child handle_request_nonempty io_defs call_defs)

text \<open>A pass that returns is followed by the next pass; any other end of a pass ends the loop.\<close>

lemma serve_loop_continues:
  "loop_body it s = (Val u, s') \<Longrightarrow> serve_loop (it # its) s = serve_loop its s'"
  by (simp add: io_bind_def)

lemma serve_loop_stops:
  "loop_body it s = (r, s') \<Longrightarrow> \<forall>u. r \<noteq> Val u \<Longrightarrow> serve_loop (it # its) s = (r, s')"
  by (cases r) (simp_all add: io_bind_def)

text \<open>
  C3. In the accept loop, an \<^verbatim>\<open>accept\<close> that fails with \<^verbatim>\<open>EINTR\<close> ends the pass without
  any further call and the loop goes on with the next \<^verbatim>\<open>accept\<close>; an \<^verbatim>\<open>accept\<close> that fails
  with any other errno raises the \<^verbatim>\<open>OSError\<close> out of the loop, whatever the environment
  would have answered later, and the process ends with status 1.
\<close>

theorem accept_eintr_retried_other_errors_fatal:
  "(accept_answer it = Inl EINTR \<longrightarrow>
      serve_loop (it # its) s = serve_loop its (s\<lparr>trace := trace s @ [Accept]\<rparr>)) \<and>
   (\<forall>n. accept_answer it = Inl n \<and> n \<noteq> EINTR \<longrightarrow>
      serve_loop (it # its) s = (Raised (OSError n), s\<lparr>trace := trace s @ [Accept]\<rparr>) \<and>
      exit_status (fst (serve_loop (it # its) s)) = Some 1)"
proof (intro conjI impI allI)
  assume e: "accept_answer it = Inl EINTR"
  show "serve_loop (it # its) s = serve_loop its (s\<lparr>trace := trace s @ [Accept]\<rparr>)"
    by (rule serve_loop_continues [OF loop_body_eintr [OF e]])
next
  fix n
  assume a: "accept_answer it = Inl n \<and> n \<noteq> EINTR"
  then have b: "loop_body it s = (Raised (OSError n), s\<lparr>trace := trace s @ [Accept]\<rparr>)"
    by (simp add: loop_body_accept_error)
  show l: "serve_loop (it # its) s = (Raised (OSError n), s\<lparr>trace := trace s @ [Accept]\<rparr>)"
    by (rule serve_loop_stops [OF b]) simp
  show "exit_status (fst (serve_loop (it # its) s)) = Some 1"
    by (simp only: l fst_conv exit_status.simps)
qed

text \<open>
  An interrupted \<^verbatim>\<open>accept\<close>, then a connection that is accepted and handed to a child
  with pid 100, then an \<^verbatim>\<open>accept\<close> that fails with \<^verbatim>\<open>EMFILE\<close> (24).
\<close>

theorem accept_eintr_retried_other_errors_fatal_witness:
  "accept_answer \<lparr>accept_answer = Inl EINTR, fork_answer = Inr 100\<rparr> = Inl EINTR \<and>
   accept_answer \<lparr>accept_answer = Inl 24, fork_answer = Inr 100\<rparr> = Inl 24 \<and>
   24 \<noteq> EINTR \<and>
   fst (serve_loop
     [\<lparr>accept_answer = Inl EINTR, fork_answer = Inr 100\<rparr>,
      \<lparr>accept_answer =
         Inr (\<lparr>conn_id = 7, incoming = Inr ''GET'',
       print_answer = (\<lambda>_. None), sendall_answer = (\<lambda>_. None)\<rparr>,
              (''10.0.0.1'', 5000)),
       fork_answer = Inr 100\<rparr>,
      \<lparr>accept_answer = Inl 24, fork_answer = Inr 100\<rparr>]
     fresh_process) = Raised (OSError 24) \<and>
   trace (snd (serve_loop
     [\<lparr>accept_answer = Inl EINTR, fork_answer = Inr 100\<rparr>,
      \<lparr>accept_answer =
         Inr (\<lparr>conn_id = 7, incoming = Inr ''GET'',
       print_answer = (\<lambda>_. None), sendall_answer = (\<lambda>_. None)\<rparr>,
              (''10.0.0.1'', 5000)),
       fork_answer = Inr 100\<rparr>,
      \<lparr>accept_answer = Inl 24, fork_answer = Inr 100\<rparr>]
     fresh_process)) = [Accept, Accept, Fork, Close (ClientConn 7), Accept]"
proof -
  let ?conn = "\<lparr>conn_id = 7, incoming = Inr ''GET'',
       print_answer = (\<lambda>_. None), sendall_answer = (\<lambda>_. None)\<rparr>"
  let ?it1 = "\<lparr>accept_answer = Inl EINTR, fork_answer = Inr 100\<rparr>"
  let ?it2 = "\<lparr>accept_answer = Inr (?conn, (''10.0.0.1'', 5000)), fork_answer = Inr 100\<rparr>"
  let ?it3 = "\<lparr>accept_answer = Inl 24, fork_answer = Inr 100\<rparr>"
  let ?s1 = "fresh_process\<lparr>trace := trace fresh_process @ [Accept]\<rparr>"
  let ?s2 = "?s1\<lparr>sockets := (sockets ?s1)(ClientConn (conn_id ?conn) \<mapsto> Closed),
      trace := trace ?s1 @ [Accept, Fork, Close (ClientConn (conn_id ?conn))]\<rparr>"
  have ne: "(24::nat) \<noteq> EINTR" by (simp add: EINTR_def)
  have 1: "serve_loop [?it1, ?it2, ?it3] fresh_process = serve_loop [?it2, ?it3] ?s1"
    using accept_eintr_retried_other_errors_fatal [of ?it1 "[?it2, ?it3]" fresh_process]
    by simp
  have 2: "serve_loop [?it2, ?it3] ?s1 = serve_loop [?it3] ?s2"
    by (rule serve_loop_continues, rule loop_body_parent [where p = 100]) simp_all
  have 3: "serve_loop [?it3] ?s2 = (Raised (OSError 24), ?s2\<lparr>trace := trace ?s2 @ [Accept]\<rparr>)"
    using accept_eintr_retried_other_errors_fatal [of ?it3 "[]" ?s2] ne
    by simp
  show ?thesis
    by (simp only: 1 2 3) (simp add: ne fresh_process_def)
qed

text \<open>
  C10. When \<^verbatim>\<open>os.fork\<close> fails, with any errno, \<^verbatim>\<open>EINTR\<close> included, nothing in the loop
  catches the \<^verbatim>\<open>OSError\<close>: it leaves the loop after the calls \<^verbatim>\<open>accept\<close> and \<^verbatim>\<open>fork\<close>,
  the accepted connection is left as it was accepted, and the process ends with status 1.
\<close>

theorem fork_failure_is_fatal:
  assumes "accept_answer it = Inr (c, a)" and "fork_answer it = Inl n"
  shows "serve_loop (it # its) s =
           (Raised (OSError n),
            s\<lparr>sockets := (sockets s)(ClientConn (conn_id c) \<mapsto> Connected),
              trace := trace s @ [Accept, Fork]\<rparr>) \<and>
         exit_status (fst (serve_loop (it # its) s)) = Some 1"
proof -
  have l: "serve_loop (it # its) s =
      (Raised (OSError n),
       s\<lparr>sockets := (sockets s)(ClientConn (conn_id c) \<mapsto> Connected),
         trace := trace s @ [Accept, Fork]\<rparr>)"
    by (rule serve_loop_stops [OF loop_body_fork_error [OF assms]]) simp
  show ?thesis
    by (simp only: l fst_conv exit_status.simps simp_thms)
qed

text \<open>The accepted connection is kept and \<^verbatim>\<open>fork\<close> fails with \<^verbatim>\<open>EAGAIN\<close> (11).\<close>

theorem fork_failure_is_fatal_witness:
  "accept_answer
     \<lparr>accept_answer =
        Inr (\<lparr>conn_id = 7, incoming = Inr ''GET'',
       print_answer = (\<lambda>_. None), sendall_answer = (\<lambda>_. None)\<rparr>,
             (''10.0.0.1'', 5000)),
      fork_answer = Inl 11\<rparr> =
     Inr (\<lparr>conn_id = 7, incoming = Inr ''GET'',
       print_answer = (\<lambda>_. None), sendall_answer = (\<lambda>_. None)\<rparr>,
          (''10.0.0.1'', 5000)) \<and>
   fork_answer
     \<lparr>accept_answer =
        Inr (\<lparr>conn_id = 7, incoming = Inr ''GET'',
       print_answer = (\<lambda>_. None), sendall_answer = (\<lambda>_. None)\<rparr>,
             (''10.0.0.1'', 5000)),
      fork_answer = Inl 11\<rparr> = Inl 11 \<and>
   fst (serve_loop
     [\<lparr>accept_answer =
         Inr (\<lparr>conn_id = 7, incoming = Inr ''GET'',
       print_answer = (\<lambda>_. None), sendall_answer = (\<lambda>_. None)\<rparr>,
              (''10.0.0.1'', 5000)),
       fork_answer = Inl 11\<rparr>,
      \<lparr>accept_answer = Inl EINTR, fork_answer = Inr 100\<rparr>]
     fresh_process) = Raised (OSError 11) \<and>
   trace (snd (serve_loop
     [\<lparr>accept_answer =
         Inr (\<lparr>conn_id = 7, incoming = Inr ''GET'',
       print_answer = (\<lambda>_. None), sendall_answer = (\<lambda>_. None)\<rparr>,
              (''10.0.0.1'', 5000)),
       fork_answer = Inl 11\<rparr>,
      \<lparr>accept_answer = Inl EINTR, fork_answer = Inr 100\<rparr>]
     fresh_process)) = [Accept, Fork] \<and>
   exit_status (fst (serve_loop
     [\<lparr>accept_answer =
         Inr (\<lparr>conn_id = 7, incoming = Inr ''GET'',
       print_answer = (\<lambda>_. None), sendall_answer = (\<lambda>_. None)\<rparr>,
              (''10.0.0.1'', 5000)),
       fork_answer = Inl 11\<rparr>,
      \<lparr>accept_answer = Inl EINTR, fork_answer = Inr 100\<rparr>]
     fresh_process)) = Some 1"
  using fork_failure_is_fatal
    [of "\<lparr>accept_answer =
            Inr (\<lparr>conn_id = 7, incoming = Inr ''GET'',
       print_answer = (\<lambda>_. None), sendall_answer = (\<lambda>_. None)\<rparr>,
                 (''10.0.0.1'', 5000)),
          fork_answer = Inl 11\<rparr>"
        "\<lparr>conn_id = 7, incoming = Inr ''GET'',
       print_answer = (\<lambda>_. None), sendall_answer = (\<lambda>_. None)\<rparr>"
        "(''10.0.0.1'', 5000)" 11
        "[\<lparr>accept_answer = Inl EINTR, fork_answer = Inr 100\<rparr>]" fresh_process]
  by (simp add: fresh_process_def)

subsection \<open>The parent's side of the loop\<close>

text \<open>
  What a pass of the process that is not the child does: its calls extend the trace and
  are calls of the parent, and the listening socket stays as it was.
\<close>

lemma parent_calls_append:
  "parent_calls (xs @ ys) = (parent_calls xs \<and> parent_calls ys)"
  by (simp add: parent_calls_def)

lemma loop_body_not_child:
  assumes "fork_answer it \<noteq> Inr 0"
  shows "\<exists>evs. trace (snd (loop_body it s)) = trace s @ evs \<and> parent_calls evs \<and>
           sockets (snd (loop_body it s)) ListenSocket = sockets s ListenSocket"
proof (cases "accept_answer it")
  case (Inl n)
  show ?thesis
  proof (cases "n = EINTR")
    case True
    with Inl show ?thesis by (simp add: loop_body_eintr parent_calls_def)
  next
    case False
    with Inl show ?thesis by (simp add: loop_body_accept_error parent_calls_def)
  qed
next
  case (Inr ca)
  obtain c a where ca: "ca = (c, a)" by (cases ca)
  show ?thesis
  proof (cases "fork_answer it")
    case (Inl n)
    with Inr ca show ?thesis by (simp add: loop_body_fork_error parent_calls_def)
  next
    case fr: (Inr p)
    with assms have "p \<noteq> 0" by simp
    with Inr ca fr show ?thesis by (simp add: loop_body_parent parent_calls_def)
  qed
qed

lemma serve_loop_not_child:
  "list_all (\<lambda>it. fork_answer it \<noteq> Inr 0) its \<Longrightarrow>
     \<exists>evs. trace (snd (serve_loop its s)) = trace s @ evs \<and> parent_calls evs \<and>
       sockets (snd (serve_loop its s)) ListenSocket = sockets s ListenSocket"
proof (induction its arbitrary: s)
  case Nil
  then show ?case by (simp add: parent_calls_def)
next
  case (Cons it its)
  then have nc: "fork_answer it \<noteq> Inr 0"
    and rest: "list_all (\<lambda>it. fork_answer it \<noteq> Inr 0) its" by simp_all
  obtain r s' where b: "loop_body it s = (r, s')" by (cases "loop_body it s")
  from loop_body_not_child [OF nc, of s] b obtain evs
    where t: "trace s' = trace s @ evs" and p: "parent_calls evs"
      and l: "sockets s' ListenSocket = sockets s ListenSocket" by auto
  show ?case
  proof (cases "\<exists>u. r = Val u")
    case True
    then obtain u where r: "r = Val u" by blast
    have step: "serve_loop (it # its) s = serve_loop its s'"
      by (rule serve_loop_continues [OF b [unfolded r]])
    from Cons.IH [OF rest, of s'] obtain evs'
      where t': "trace (snd (serve_loop its s')) = trace s' @ evs'" and p': "parent_calls evs'"
        and l': "sockets (snd (serve_loop its s')) ListenSocket = sockets s' ListenSocket"
      by blast
    from t t' have "trace (snd (serve_loop (it # its) s)) = trace s @ (evs @ evs')"
      by (simp only: step append_assoc)
    moreover from p p' have "parent_calls (evs @ evs')" by (simp add: parent_calls_append)
    moreover from l l' have
      "sockets (snd (serve_loop (it # its) s)) ListenSocket = sockets s ListenSocket"
      by (simp only: step)
    ultimately show ?thesis by blast
  next
    case False
    then have "\<forall>u. r \<noteq> Val u" by blast
    from serve_loop_stops [OF b this] have "serve_loop (it # its) s = (r, s')" .
    with t p l show ?thesis by auto
  qed
qed

lemma parent_calls_on_listen:
  "parent_calls evs \<Longrightarrow> ev \<in> set evs \<Longrightarrow>
     (on_sock ListenSocket ev \<longrightarrow> ev = Accept) \<and> (\<forall>k n d. ev \<noteq> Recv k n \<and> ev \<noteq> Sendall k d)"
proof -
  assume "parent_calls evs" and "ev \<in> set evs"
  then have "parent_call ev" by (simp add: parent_calls_def list_all_iff)
  then show ?thesis by (cases ev rule: parent_call.cases) simp_all
qed

text \<open>
  C8. In the parent, after a fork that succeeded, the pass ends with one call on the accepted
  connection, the \<^verbatim>\<open>close\<close> of the parent's copy, and the connection is then closed in the
  parent. Over any number of passes of the parent, whatever the answers of the environment,
  the listening socket stays in the state it had (listening, once started), the only calls
  on it are the \<^verbatim>\<open>accept\<close>s, and the parent issues no \<^verbatim>\<open>recv\<close> and no \<^verbatim>\<open>sendall\<close>.
\<close>

theorem parent_only_closes_connection_and_keeps_listening:
  "(\<forall>c a p. accept_answer it = Inr (c, a) \<and> fork_answer it = Inr p \<and> p \<noteq> 0 \<longrightarrow>
      new_events (loop_body it) s = [Accept, Fork, Close (ClientConn (conn_id c))] \<and>
      filter (on_sock (ClientConn (conn_id c))) (new_events (loop_body it) s) =
        [Close (ClientConn (conn_id c))] \<and>
      sockets (snd (loop_body it s)) = (sockets s)(ClientConn (conn_id c) \<mapsto> Closed)) \<and>
   (list_all (\<lambda>it. fork_answer it \<noteq> Inr 0) its \<longrightarrow>
      sockets (snd (serve_loop its s)) ListenSocket = sockets s ListenSocket \<and>
      (\<forall>ev \<in> set (new_events (serve_loop its) s).
         (on_sock ListenSocket ev \<longrightarrow> ev = Accept) \<and>
         (\<forall>k n d. ev \<noteq> Recv k n \<and> ev \<noteq> Sendall k d)))"
proof (intro conjI allI impI)
  fix c a p
  assume h: "accept_answer it = Inr (c, a) \<and> fork_answer it = Inr p \<and> p \<noteq> 0"
  then have b: "loop_body it s =
      (Val (),
       s\<lparr>sockets := (sockets s)(ClientConn (conn_id c) \<mapsto> Closed),
         trace := trace s @ [Accept, Fork, Close (ClientConn (conn_id c))]\<rparr>)"
    by (simp add: loop_body_parent)
  show e: "new_events (loop_body it) s = [Accept, Fork, Close (ClientConn (conn_id c))]"
    by (simp add: b)
  show "filter (on_sock (ClientConn (conn_id c))) (new_events (loop_body it) s) =
      [Close (ClientConn (conn_id c))]"
    by (simp add: e)
  show "sockets (snd (loop_body it s)) = (sockets s)(ClientConn (conn_id c) \<mapsto> Closed)"
    by (simp add: b)
next
  assume h: "list_all (\<lambda>it. fork_answer it \<noteq> Inr 0) its"
  from serve_loop_not_child [OF h, of s] obtain evs
    where t: "trace (snd (serve_loop its s)) = trace s @ evs" and p: "parent_calls evs"
      and l: "sockets (snd (serve_loop its s)) ListenSocket = sockets s ListenSocket" by blast
  from l show "sockets (snd (serve_loop its s)) ListenSocket = sockets s ListenSocket" .
  from t have e: "new_events (serve_loop its) s = evs" by simp
  show "\<forall>ev \<in> set (new_events (serve_loop its) s).
      (on_sock ListenSocket ev \<longrightarrow> ev = Accept) \<and>
      (\<forall>k n d. ev \<noteq> Recv k n \<and> ev \<noteq> Sendall k d)"
    unfolding e using parent_calls_on_listen [OF p] by blast
qed

text \<open>
  A parent that accepts a connection and forks a child with pid 100, from a state in which
  the listening socket listens on port 8888.
\<close>

theorem parent_only_closes_connection_and_keeps_listening_witness:
  "accept_answer
     \<lparr>accept_answer =
        Inr (\<lparr>conn_id = 7, incoming = Inr ''GET'',
       print_answer = (\<lambda>_. None), sendall_answer = (\<lambda>_. None)\<rparr>,
             (''10.0.0.1'', 5000)),
      fork_answer = Inr 100\<rparr> =
     Inr (\<lparr>conn_id = 7, incoming = Inr ''GET'',
       print_answer = (\<lambda>_. None), sendall_answer = (\<lambda>_. None)\<rparr>,
          (''10.0.0.1'', 5000)) \<and>
   list_all (\<lambda>it. fork_answer it \<noteq> Inr 0)
     [\<lparr>accept_answer =
         Inr (\<lparr>conn_id = 7, incoming = Inr ''GET'',
       print_answer = (\<lambda>_. None), sendall_answer = (\<lambda>_. None)\<rparr>,
              (''10.0.0.1'', 5000)),
       fork_answer = Inr 100\<rparr>] \<and>
   new_events
     (loop_body
        \<lparr>accept_answer =
           Inr (\<lparr>conn_id = 7, incoming = Inr ''GET'',
       print_answer = (\<lambda>_. None), sendall_answer = (\<lambda>_. None)\<rparr>,
                (''10.0.0.1'', 5000)),
         fork_answer = Inr 100\<rparr>)
     (fresh_process\<lparr>sockets := [ListenSocket \<mapsto> Listening [] 8888 1024]\<rparr>) =
     [Accept, Fork, Close (ClientConn 7)] \<and>
   sockets
     (snd (serve_loop
        [\<lparr>accept_answer =
            Inr (\<lparr>conn_id = 7, incoming = Inr ''GET'',
       print_answer = (\<lambda>_. None), sendall_answer = (\<lambda>_. None)\<rparr>,
                 (''10.0.0.1'', 5000)),
          fork_answer = Inr 100\<rparr>]
        (fresh_process\<lparr>sockets := [ListenSocket \<mapsto> Listening [] 8888 1024]\<rparr>)))
     ListenSocket = Some (Listening [] 8888 1024)"
  using parent_only_closes_connection_and_keeps_listening
    [of "\<lparr>accept_answer =
            Inr (\<lparr>conn_id = 7, incoming = Inr ''GET'',
       print_answer = (\<lambda>_. None), sendall_answer = (\<lambda>_. None)\<rparr>,
                 (''10.0.0.1'', 5000)),
          fork_answer = Inr 100\<rparr>"
        "fresh_process\<lparr>sockets := [ListenSocket \<mapsto> Listening [] 8888 1024]\<rparr>"
        "[\<lparr>accept_answer =
            Inr (\<lparr>conn_id = 7, incoming = Inr ''GET'',
       print_answer = (\<lambda>_. None), sendall_answer = (\<lambda>_. None)\<rparr>,
                 (''10.0.0.1'', 5000)),
          fork_answer = Inr 100\<rparr>]"]
  by simp

subsection \<open>The child's side of the loop\<close>

lemma handle_request_outcome:
  "fst (handle_request c s) =
     (case incoming c of
        Inl n \<Rightarrow> Raised (OSError n)
      | Inr data \<Rightarrow>
          if data = [] then Val ()
          else (case print_answer c (take 1024 data) of
                  Some e \<Rightarrow> Raised e
                | None \<Rightarrow>
                    (case sendall_answer c response of
                       None \<Rightarrow> Val ()
                     | Some n \<Rightarrow> Raised (OSError n))))"
proof (cases "incoming c")
  case (Inl n)
  then show ?thesis by (simp add: handle_request_recv_error)
next
  case (Inr data)
  show ?thesis
  proof (cases "data = []")
    case True
    with Inr show ?thesis by (simp add: handle_request_empty)
  next
    case False
    show ?thesis
    proof (cases "print_answer c (take 1024 data)")
      case (Some e')
      with Inr False show ?thesis by (simp add: handle_request_print_error)
    next
      case pn: None
      show ?thesis
      proof (cases "sendall_answer c response")
        case None
        with Inr False pn show ?thesis by (simp add: handle_request_nonempty)
      next
        case (Some n)
        with Inr False pn show ?thesis by (simp add: handle_request_nonempty)
      qed
    qed
  qed
qed

lemma child_never_returns:
  assumes "accept_answer it = Inr (c, a)" and "fork_answer it = Inr 0"
  shows "\<forall>u. fst (loop_body it s) \<noteq> Val u"
proof (cases "incoming c")
  case (Inl n)
  with assms show ?thesis by (simp add: child_recv_error)
next
  case (Inr data)
  show ?thesis
  proof (cases "data = []")
    case True
    with assms Inr show ?thesis by (simp add: child_empty)
  next
    case False
    show ?thesis
    proof (cases "print_answer c (take 1024 data)")
      case (Some e')
      with assms Inr False show ?thesis by (simp add: child_print_error)
    next
      case pn: None
      show ?thesis
      proof (cases "sendall_answer c response")
        case None
        with assms Inr False pn show ?thesis by (simp add: child_served)
      next
        case (Some n)
        with assms Inr False pn show ?thesis by (simp add: child_sendall_error)
      qed
    qed
  qed
qed

lemma child_never_loops:
  assumes "accept_answer it = Inr (c, a)" and "fork_answer it = Inr 0"
  shows "serve_loop (it # its) s = loop_body it s"
proof -
  obtain r s' where b: "loop_body it s = (r, s')" by (cases "loop_body it s")
  from child_never_returns [OF assms, of s] b have "\<forall>u. r \<noteq> Val u" by simp
  from serve_loop_stops [OF b this] b show ?thesis by simp
qed

text \<open>
  C7, as stated, fails. In a child whose \<^verbatim>\<open>recv\<close> fails with \<^verbatim>\<open>ECONNRESET\<close> (104) the
  calls after \<^verbatim>\<open>fork\<close> are the \<^verbatim>\<open>close\<close> of the listening socket and the \<^verbatim>\<open>recv\<close>, and no
  more: the exception ends the child, the connection is left open, and neither the \<^verbatim>\<open>close\<close>
  of the connection nor \<^verbatim>\<open>os._exit\<close> is reached.
\<close>

theorem child_runs_linear_sequence_counterexample:
  "accept_answer
     \<lparr>accept_answer =
        Inr (\<lparr>conn_id = 7, incoming = Inl 104,
       print_answer = (\<lambda>_. None), sendall_answer = (\<lambda>_. None)\<rparr>,
             (''10.0.0.1'', 5000)),
      fork_answer = Inr 0\<rparr> =
     Inr (\<lparr>conn_id = 7, incoming = Inl 104,
       print_answer = (\<lambda>_. None), sendall_answer = (\<lambda>_. None)\<rparr>,
          (''10.0.0.1'', 5000)) \<and>
   fork_answer
     \<lparr>accept_answer =
        Inr (\<lparr>conn_id = 7, incoming = Inl 104,
       print_answer = (\<lambda>_. None), sendall_answer = (\<lambda>_. None)\<rparr>,
             (''10.0.0.1'', 5000)),
      fork_answer = Inr 0\<rparr> = Inr 0 \<and>
   new_events
     (serve_loop
        [\<lparr>accept_answer =
        Inr (\<lparr>conn_id = 7, incoming = Inl 104,
       print_answer = (\<lambda>_. None), sendall_answer = (\<lambda>_. None)\<rparr>,
             (''10.0.0.1'', 5000)),
      fork_answer = Inr 0\<rparr>,
         \<lparr>accept_answer = Inl EINTR, fork_answer = Inr 0\<rparr>])
     fresh_process =
     [Accept, Fork, Close ListenSocket, Recv (ClientConn 7) 1024] \<and>
   fst (serve_loop
        [\<lparr>accept_answer =
        Inr (\<lparr>conn_id = 7, incoming = Inl 104,
       print_answer = (\<lambda>_. None), sendall_answer = (\<lambda>_. None)\<rparr>,
             (''10.0.0.1'', 5000)),
      fork_answer = Inr 0\<rparr>,
         \<lparr>accept_answer = Inl EINTR, fork_answer = Inr 0\<rparr>]
        fresh_process) = Raised (OSError 104) \<and>
   sockets (snd (serve_loop
        [\<lparr>accept_answer =
        Inr (\<lparr>conn_id = 7, incoming = Inl 104,
       print_answer = (\<lambda>_. None), sendall_answer = (\<lambda>_. None)\<rparr>,
             (''10.0.0.1'', 5000)),
      fork_answer = Inr 0\<rparr>,
         \<lparr>accept_answer = Inl EINTR, fork_answer = Inr 0\<rparr>]
        fresh_process)) (ClientConn 7) = Some Connected"
  by (simp add: loop_body_def handle_request_def io_defs call_defs BUFFER_SIZE_def
      new_events_def fresh_process_def)

text \<open>
  C7, amended. The process that is the child after \<^verbatim>\<open>fork\<close> issues, in this order: the
  \<^verbatim>\<open>close\<close> of its copy of the listening socket, before any call on the connection; the
  \<^verbatim>\<open>recv\<close> on the connection; when the read is not empty the \<^verbatim>\<open>print\<close> of the request and
  then the \<^verbatim>\<open>sendall\<close> of the response; the \<^verbatim>\<open>close\<close> of the connection; and
  \<^verbatim>\<open>os._exit(0)\<close>, with which the process ends: it issues no call after it, whatever the
  environment would answer. The sequence stops early exactly where \<^verbatim>\<open>recv\<close>, \<^verbatim>\<open>print\<close> or
  \<^verbatim>\<open>sendall\<close> raises: the process then ends with that exception, without the later calls.
\<close>

theorem child_runs_linear_sequence:
  assumes "accept_answer it = Inr (c, a)" and "fork_answer it = Inr 0"
  shows "new_events (serve_loop (it # its)) s =
           [Accept, Fork, Close ListenSocket, Recv (ClientConn (conn_id c)) BUFFER_SIZE] @
           (case incoming c of
              Inl n \<Rightarrow> []
            | Inr data \<Rightarrow>
                if data = [] then [Close (ClientConn (conn_id c)), Os_exit 0]
                else Print_decoded (take BUFFER_SIZE data) #
                  (case print_answer c (take BUFFER_SIZE data) of
                     Some e \<Rightarrow> []
                   | None \<Rightarrow>
                       Sendall (ClientConn (conn_id c)) response #
                       (case sendall_answer c response of
                          Some n \<Rightarrow> []
                        | None \<Rightarrow> [Close (ClientConn (conn_id c)), Os_exit 0]))) \<and>
         fst (serve_loop (it # its) s) =
           (case incoming c of
              Inl n \<Rightarrow> Raised (OSError n)
            | Inr data \<Rightarrow>
                if data = [] then Exited 0
                else (case print_answer c (take BUFFER_SIZE data) of
                        Some e \<Rightarrow> Raised e
                      | None \<Rightarrow>
                          (case sendall_answer c response of
                             Some n \<Rightarrow> Raised (OSError n)
                           | None \<Rightarrow> Exited 0)))"
proof -
  have l: "serve_loop (it # its) s = loop_body it s"
    by (rule child_never_loops [OF assms])
  have n: "new_events (serve_loop (it # its)) s = new_events (loop_body it) s"
    by (simp only: new_events_def l)
  have pass: "new_events (loop_body it) s =
           [Accept, Fork, Close ListenSocket, Recv (ClientConn (conn_id c)) BUFFER_SIZE] @
           (case incoming c of
              Inl n \<Rightarrow> []
            | Inr data \<Rightarrow>
                if data = [] then [Close (ClientConn (conn_id c)), Os_exit 0]
                else Print_decoded (take BUFFER_SIZE data) #
                  (case print_answer c (take BUFFER_SIZE data) of
                     Some e \<Rightarrow> []
                   | None \<Rightarrow>
                       Sendall (ClientConn (conn_id c)) response #
                       (case sendall_answer c response of
                          Some n \<Rightarrow> []
                        | None \<Rightarrow> [Close (ClientConn (conn_id c)), Os_exit 0]))) \<and>
         fst (loop_body it s) =
           (case incoming c of
              Inl n \<Rightarrow> Raised (OSError n)
            | Inr data \<Rightarrow>
                if data = [] then Exited 0
                else (case print_answer c (take BUFFER_SIZE data) of
                        Some e \<Rightarrow> Raised e
                      | None \<Rightarrow>
                          (case sendall_answer c response of
                             Some n \<Rightarrow> Raised (OSError n)
                           | None \<Rightarrow> Exited 0)))"
    (is ?pass)
  proof (cases "incoming c")
    case (Inl n)
    with assms show ?pass by (simp add: child_recv_error BUFFER_SIZE_def)
  next
    case (Inr data)
    show ?pass
    proof (cases "data = []")
      case True
      with assms Inr show ?pass by (simp add: child_empty BUFFER_SIZE_def)
    next
      case False
      show ?pass
      proof (cases "print_answer c (take 1024 data)")
        case (Some e')
        with assms Inr False show ?pass by (simp add: child_print_error BUFFER_SIZE_def)
      next
        case pn: None
        show ?pass
        proof (cases "sendall_answer c response")
          case None
          with assms Inr False pn show ?pass by (simp add: child_served BUFFER_SIZE_def)
        next
          case (Some n)
          with assms Inr False pn show ?pass by (simp add: child_sendall_error BUFFER_SIZE_def)
        qed
      qed
    qed
  qed
  show ?thesis
    unfolding l n by (rule pass)
qed

theorem child_runs_linear_sequence_witness:
  "accept_answer
     \<lparr>accept_answer =
        Inr (\<lparr>conn_id = 7, incoming = Inr ''GET'',
       print_answer = (\<lambda>_. None), sendall_answer = (\<lambda>_. None)\<rparr>,
             (''10.0.0.1'', 5000)),
      fork_answer = Inr 0\<rparr> =
     Inr (\<lparr>conn_id = 7, incoming = Inr ''GET'',
       print_answer = (\<lambda>_. None), sendall_answer = (\<lambda>_. None)\<rparr>,
          (''10.0.0.1'', 5000)) \<and>
   fork_answer
     \<lparr>accept_answer =
        Inr (\<lparr>conn_id = 7, incoming = Inr ''GET'',
       print_answer = (\<lambda>_. None), sendall_answer = (\<lambda>_. None)\<rparr>,
             (''10.0.0.1'', 5000)),
      fork_answer = Inr 0\<rparr> = Inr 0 \<and>
   new_events
     (serve_loop
        [\<lparr>accept_answer =
        Inr (\<lparr>conn_id = 7, incoming = Inr ''GET'',
       print_answer = (\<lambda>_. None), sendall_answer = (\<lambda>_. None)\<rparr>,
             (''10.0.0.1'', 5000)),
      fork_answer = Inr 0\<rparr>,
         \<lparr>accept_answer = Inl EINTR, fork_answer = Inr 0\<rparr>])
     fresh_process =
     [Accept, Fork, Close ListenSocket, Recv (ClientConn 7) 1024, Print_decoded ''GET'',
      Sendall (ClientConn 7) response, Close (ClientConn 7), Os_exit 0] \<and>
   fst (serve_loop
        [\<lparr>accept_answer =
        Inr (\<lparr>conn_id = 7, incoming = Inr ''GET'',
       print_answer = (\<lambda>_. None), sendall_answer = (\<lambda>_. None)\<rparr>,
             (''10.0.0.1'', 5000)),
      fork_answer = Inr 0\<rparr>,
         \<lparr>accept_answer = Inl EINTR, fork_answer = Inr 0\<rparr>]
        fresh_process) = Exited 0"
  using child_runs_linear_sequence
    [of "\<lparr>accept_answer =
        Inr (\<lparr>conn_id = 7, incoming = Inr ''GET'',
       print_answer = (\<lambda>_. None), sendall_answer = (\<lambda>_. None)\<rparr>,
             (''10.0.0.1'', 5000)),
      fork_answer = Inr 0\<rparr>"
        "\<lparr>conn_id = 7, incoming = Inr ''GET'',
       print_answer = (\<lambda>_. None), sendall_answer = (\<lambda>_. None)\<rparr>"
        "(''10.0.0.1'', 5000)"
        "[\<lparr>accept_answer = Inl EINTR, fork_answer = Inr 0\<rparr>]" fresh_process]
  by (simp add: BUFFER_SIZE_def del: serve_loop.simps)

lemma child_after_handle_request:
  assumes "accept_answer it = Inr (c, a)" and "fork_answer it = Inr 0"
  shows "fst (loop_body it s) =
           (case fst (handle_request c s0) of Val _ \<Rightarrow> Exited 0 | r \<Rightarrow> r)"
proof (cases "incoming c")
  case (Inl n)
  with assms show ?thesis by (simp add: child_recv_error handle_request_outcome)
next
  case (Inr data)
  show ?thesis
  proof (cases "data = []")
    case True
    with assms Inr show ?thesis by (simp add: child_empty handle_request_outcome)
  next
    case False
    show ?thesis
    proof (cases "print_answer c (take 1024 data)")
      case (Some e')
      with assms Inr False show ?thesis by (simp add: child_print_error handle_request_outcome)
    next
      case pn: None
      show ?thesis
      proof (cases "sendall_answer c response")
        case None
        with assms Inr False pn show ?thesis by (simp add: child_served handle_request_outcome)
      next
        case (Some n)
        with assms Inr False pn show ?thesis
          by (simp add: child_sendall_error handle_request_outcome)
      qed
    qed
  qed
qed

lemma child_returned:
  assumes "accept_answer it = Inr (c, a)" and "fork_answer it = Inr 0"
    and "fst (handle_request c s0) = Val ()"
  shows "sockets (snd (loop_body it s)) (ClientConn (conn_id c)) = Some Closed \<and>
         (\<exists>evs. new_events (loop_body it) s = evs @ [Close (ClientConn (conn_id c)), Os_exit 0])"
proof (cases "incoming c")
  case (Inl n)
  with assms(3) show ?thesis by (simp add: handle_request_outcome)
next
  case (Inr data)
  show ?thesis
  proof (cases "data = []")
    case True
    with assms Inr show ?thesis by (simp add: child_empty)
  next
    case False
    show ?thesis
    proof (cases "print_answer c (take 1024 data)")
      case (Some e')
      with assms(3) Inr False show ?thesis by (simp add: handle_request_outcome)
    next
      case pn: None
      show ?thesis
      proof (cases "sendall_answer c response")
        case None
        with assms Inr False pn show ?thesis by (simp add: child_served)
      next
        case (Some n)
        with assms(3) Inr False pn show ?thesis by (simp add: handle_request_outcome)
      qed
    qed
  qed
qed

lemma child_raised:
  assumes "accept_answer it = Inr (c, a)" and "fork_answer it = Inr 0"
    and "fst (handle_request c s0) = Raised e"
  shows "sockets (snd (loop_body it s)) (ClientConn (conn_id c)) = Some Connected \<and>
         list_all (\<lambda>ev. ev \<noteq> Close (ClientConn (conn_id c)) \<and> ev \<noteq> Os_exit 0)
           (new_events (loop_body it) s)"
proof (cases "incoming c")
  case (Inl n)
  with assms show ?thesis by (simp add: child_recv_error)
next
  case (Inr data)
  show ?thesis
  proof (cases "data = []")
    case True
    with assms(3) Inr show ?thesis by (simp add: handle_request_outcome)
  next
    case False
    show ?thesis
    proof (cases "print_answer c (take 1024 data)")
      case (Some e')
      with assms Inr False show ?thesis by (simp add: child_print_error)
    next
      case pn: None
      show ?thesis
      proof (cases "sendall_answer c response")
        case None
        with assms(3) Inr False pn show ?thesis by (simp add: handle_request_outcome)
      next
        case (Some n)
        with assms Inr False pn show ?thesis by (simp add: child_sendall_error)
      qed
    qed
  qed
qed

text \<open>
  C5. For an accepted connection, in the child: when \<^verbatim>\<open>handle_request\<close> returns, the child
  closes the connection and leaves through \<^verbatim>\<open>os._exit(0)\<close>, its last two calls, with exit
  status 0. When \<^verbatim>\<open>handle_request\<close> raises, the exception ends the child, which never goes
  back to \<^verbatim>\<open>accept\<close>: it is uncaught there, so the child ends with status 1, without the
  \<^verbatim>\<open>close\<close> of the connection and without \<^verbatim>\<open>os._exit(0)\<close>. The parent does not see any
  of it: its run is the same whatever the connection answers to the child's reads and
  writes.
\<close>

theorem worker_errors_end_only_the_worker:
  assumes "accept_answer it = Inr (c, a)"
  shows
    "(fork_answer it = Inr 0 \<and> fst (handle_request c s0) = Val () \<longrightarrow>
        serve_loop (it # its) s = loop_body it s \<and>
        fst (serve_loop (it # its) s) = Exited 0 \<and>
        exit_status (fst (serve_loop (it # its) s)) = Some 0 \<and>
        sockets (snd (serve_loop (it # its) s)) (ClientConn (conn_id c)) = Some Closed \<and>
        (\<exists>evs. new_events (serve_loop (it # its)) s =
           evs @ [Close (ClientConn (conn_id c)), Os_exit 0])) \<and>
     (\<forall>e. fork_answer it = Inr 0 \<and> fst (handle_request c s0) = Raised e \<longrightarrow>
        serve_loop (it # its) s = loop_body it s \<and>
        fst (serve_loop (it # its) s) = Raised e \<and>
        exit_status (fst (serve_loop (it # its) s)) = Some 1 \<and>
        sockets (snd (serve_loop (it # its) s)) (ClientConn (conn_id c)) = Some Connected \<and>
        list_all (\<lambda>ev. ev \<noteq> Close (ClientConn (conn_id c)) \<and> ev \<noteq> Os_exit 0)
          (new_events (serve_loop (it # its)) s)) \<and>
     (\<forall>p (c' :: conn). fork_answer it = Inr p \<and> p \<noteq> 0 \<and> conn_id c' = conn_id c \<longrightarrow>
        serve_loop (it\<lparr>accept_answer := Inr (c', a)\<rparr> # its) s = serve_loop (it # its) s)"
proof (intro conjI allI impI)
  assume h: "fork_answer it = Inr 0 \<and> fst (handle_request c s0) = Val ()"
  then have f: "fork_answer it = Inr 0" and v: "fst (handle_request c s0) = Val ()"
    by simp_all
  show l: "serve_loop (it # its) s = loop_body it s"
    by (rule child_never_loops [OF assms f])
  have n: "new_events (serve_loop (it # its)) s = new_events (loop_body it) s"
    by (simp only: new_events_def l)
  show o: "fst (serve_loop (it # its) s) = Exited 0"
    by (simp only: l child_after_handle_request [OF assms f, of s s0] v outcome.case)
  show "exit_status (fst (serve_loop (it # its) s)) = Some 0"
    by (simp only: o exit_status.simps)
  from child_returned [OF assms f v, of s]
  show "sockets (snd (serve_loop (it # its) s)) (ClientConn (conn_id c)) = Some Closed"
    and "\<exists>evs. new_events (serve_loop (it # its)) s =
           evs @ [Close (ClientConn (conn_id c)), Os_exit 0]"
    by (simp_all only: l n)
next
  fix e
  assume h: "fork_answer it = Inr 0 \<and> fst (handle_request c s0) = Raised e"
  then have f: "fork_answer it = Inr 0" and v: "fst (handle_request c s0) = Raised e"
    by simp_all
  show l: "serve_loop (it # its) s = loop_body it s"
    by (rule child_never_loops [OF assms f])
  have n: "new_events (serve_loop (it # its)) s = new_events (loop_body it) s"
    by (simp only: new_events_def l)
  show o: "fst (serve_loop (it # its) s) = Raised e"
    by (simp only: l child_after_handle_request [OF assms f, of s s0] v outcome.case)
  show "exit_status (fst (serve_loop (it # its) s)) = Some 1"
    by (simp only: o exit_status.simps)
  from child_raised [OF assms f v, of s]
  show "sockets (snd (serve_loop (it # its) s)) (ClientConn (conn_id c)) = Some Connected"
    and "list_all (\<lambda>ev. ev \<noteq> Close (ClientConn (conn_id c)) \<and> ev \<noteq> Os_exit 0)
           (new_events (serve_loop (it # its)) s)"
    by (simp_all only: l n)
next
  fix p and c' :: conn
  assume h: "fork_answer it = Inr p \<and> p \<noteq> 0 \<and> conn_id c' = conn_id c"
  then have "loop_body (it\<lparr>accept_answer := Inr (c', a)\<rparr>) s = loop_body it s"
    using assms by (simp add: loop_body_parent [where p = p])
  then show "serve_loop (it\<lparr>accept_answer := Inr (c', a)\<rparr> # its) s = serve_loop (it # its) s"
    by (simp add: io_bind_def)
qed

text \<open>
  A child whose connection sends \<^verbatim>\<open>GET\<close>, a child whose \<^verbatim>\<open>recv\<close> fails with
  \<^verbatim>\<open>ECONNRESET\<close> (104), and the parent (child pid 100) of either.
\<close>

theorem worker_errors_end_only_the_worker_witness:
  "fst (handle_request \<lparr>conn_id = 7, incoming = Inr ''GET'',
       print_answer = (\<lambda>_. None), sendall_answer = (\<lambda>_. None)\<rparr> fresh_process) = Val () \<and>
   fst (handle_request \<lparr>conn_id = 7, incoming = Inl 104,
       print_answer = (\<lambda>_. None), sendall_answer = (\<lambda>_. None)\<rparr> fresh_process) = Raised (OSError 104) \<and>
   fst (serve_loop [
     \<lparr>accept_answer = Inr (\<lparr>conn_id = 7, incoming = Inr ''GET'',
       print_answer = (\<lambda>_. None), sendall_answer = (\<lambda>_. None)\<rparr>, ([], 0)), fork_answer = Inr 0\<rparr>, \<lparr>accept_answer = Inl EINTR, fork_answer = Inr 0\<rparr>] fresh_process) = Exited 0 \<and>
   exit_status (fst (serve_loop [
     \<lparr>accept_answer = Inr (\<lparr>conn_id = 7, incoming = Inr ''GET'',
       print_answer = (\<lambda>_. None), sendall_answer = (\<lambda>_. None)\<rparr>, ([], 0)), fork_answer = Inr 0\<rparr>, \<lparr>accept_answer = Inl EINTR, fork_answer = Inr 0\<rparr>] fresh_process)) = Some 0 \<and>
   sockets (snd (serve_loop [
     \<lparr>accept_answer = Inr (\<lparr>conn_id = 7, incoming = Inr ''GET'',
       print_answer = (\<lambda>_. None), sendall_answer = (\<lambda>_. None)\<rparr>, ([], 0)), fork_answer = Inr 0\<rparr>, \<lparr>accept_answer = Inl EINTR, fork_answer = Inr 0\<rparr>] fresh_process)) (ClientConn 7) = Some Closed \<and>
   fst (serve_loop [
     \<lparr>accept_answer = Inr (\<lparr>conn_id = 7, incoming = Inl 104,
       print_answer = (\<lambda>_. None), sendall_answer = (\<lambda>_. None)\<rparr>, ([], 0)), fork_answer = Inr 0\<rparr>, \<lparr>accept_answer = Inl EINTR, fork_answer = Inr 0\<rparr>] fresh_process) = Raised (OSError 104) \<and>
   exit_status (fst (serve_loop [
     \<lparr>accept_answer = Inr (\<lparr>conn_id = 7, incoming = Inl 104,
       print_answer = (\<lambda>_. None), sendall_answer = (\<lambda>_. None)\<rparr>, ([], 0)), fork_answer = Inr 0\<rparr>, \<lparr>accept_answer = Inl EINTR, fork_answer = Inr 0\<rparr>] fresh_process)) = Some 1 \<and>
   sockets (snd (serve_loop [
     \<lparr>accept_answer = Inr (\<lparr>conn_id = 7, incoming = Inl 104,
       print_answer = (\<lambda>_. None), sendall_answer = (\<lambda>_. None)\<rparr>, ([], 0)), fork_answer = Inr 0\<rparr>, \<lparr>accept_answer = Inl EINTR, fork_answer = Inr 0\<rparr>] fresh_process)) (ClientConn 7) = Some Connected \<and>
   serve_loop [
     \<lparr>accept_answer = Inr (\<lparr>conn_id = 7, incoming = Inl 104,
       print_answer = (\<lambda>_. None), sendall_answer = (\<lambda>_. None)\<rparr>, ([], 0)), fork_answer = Inr 100\<rparr>, \<lparr>accept_answer = Inl EINTR, fork_answer = Inr 0\<rparr>] fresh_process = serve_loop [
     \<lparr>accept_answer = Inr (\<lparr>conn_id = 7, incoming = Inr ''GET'',
       print_answer = (\<lambda>_. None), sendall_answer = (\<lambda>_. None)\<rparr>, ([], 0)), fork_answer = Inr 100\<rparr>, \<lparr>accept_answer = Inl EINTR, fork_answer = Inr 0\<rparr>] fresh_process"
proof -
  let ?good = "\<lparr>conn_id = 7, incoming = Inr ''GET'',
       print_answer = (\<lambda>_. None), sendall_answer = (\<lambda>_. None)\<rparr>"
  let ?bad = "\<lparr>conn_id = 7, incoming = Inl 104,
       print_answer = (\<lambda>_. None), sendall_answer = (\<lambda>_. None)\<rparr>"
  let ?g0 = "\<lparr>accept_answer = Inr (?good, ([], 0)), fork_answer = Inr 0\<rparr>"
  let ?b0 = "\<lparr>accept_answer = Inr (?bad, ([], 0)), fork_answer = Inr 0\<rparr>"
  let ?g100 = "\<lparr>accept_answer = Inr (?good, ([], 0)), fork_answer = Inr 100\<rparr>"
  let ?b100 = "\<lparr>accept_answer = Inr (?bad, ([], 0)), fork_answer = Inr 100\<rparr>"
  let ?next = "\<lparr>accept_answer = Inl EINTR, fork_answer = Inr 0\<rparr>"
  have g: "fst (handle_request ?good fresh_process) = Val ()"
    by (simp add: handle_request_outcome)
  have b: "fst (handle_request ?bad fresh_process) = Raised (OSError 104)"
    by (simp add: handle_request_outcome)
  have ag: "accept_answer ?g0 = Inr (?good, ([], 0))" and fg: "fork_answer ?g0 = Inr 0"
    and ab: "accept_answer ?b0 = Inr (?bad, ([], 0))" and fb: "fork_answer ?b0 = Inr 0"
    and ap: "accept_answer ?g100 = Inr (?good, ([], 0))"
    and fp: "fork_answer ?g100 = Inr 100 \<and> (100::int) \<noteq> 0 \<and> conn_id ?bad = conn_id ?good"
    by simp_all
  have 1: "fst (serve_loop [?g0, ?next] fresh_process) = Exited 0 \<and>
      exit_status (fst (serve_loop [?g0, ?next] fresh_process)) = Some 0 \<and>
      sockets (snd (serve_loop [?g0, ?next] fresh_process)) (ClientConn (conn_id ?good)) =
        Some Closed"
    using worker_errors_end_only_the_worker
      [OF ag, of fresh_process "[?next]" fresh_process, THEN conjunct1, rule_format,
       OF conjI [OF fg g]]
    by blast
  have 2: "fst (serve_loop [?b0, ?next] fresh_process) = Raised (OSError 104) \<and>
      exit_status (fst (serve_loop [?b0, ?next] fresh_process)) = Some 1 \<and>
      sockets (snd (serve_loop [?b0, ?next] fresh_process)) (ClientConn (conn_id ?bad)) =
        Some Connected"
    using worker_errors_end_only_the_worker
      [OF ab, of fresh_process "[?next]" fresh_process, THEN conjunct2, THEN conjunct1,
       rule_format, OF conjI [OF fb b]]
    by blast
  have "serve_loop [?g100\<lparr>accept_answer := Inr (?bad, ([], 0))\<rparr>, ?next] fresh_process =
      serve_loop [?g100, ?next] fresh_process"
    by (rule worker_errors_end_only_the_worker
      [OF ap, of fresh_process "[?next]" fresh_process, THEN conjunct2,
       THEN conjunct2, rule_format, OF fp])
  then have 3: "serve_loop [?b100, ?next] fresh_process = serve_loop [?g100, ?next] fresh_process"
    by (simp del: serve_loop.simps)
  have ids: "conn_id ?good = 7" "conn_id ?bad = 7" by simp_all
  from g b 1 2 3 show ?thesis
    unfolding ids by blast
qed

subsection \<open>Start-up\<close>

lemma str_PORT: "str PORT = ''8888''"
  by (simp add: PORT_def str.simps char_of_def bit_0)

lemma startup_ok:
  "socket_answer w = None \<Longrightarrow> setsockopt_answer w = None \<Longrightarrow> bind_answer w = None \<Longrightarrow>
   listen_answer w = None \<Longrightarrow>
     startup w s =
       (Val (),
        s\<lparr>sockets := (sockets s)(ListenSocket \<mapsto> Listening [] 8888 1024),
          reuseaddr := True,
          trace := trace s @
            [Socket_AF_INET_SOCK_STREAM, Setsockopt_SOL_SOCKET_SO_REUSEADDR 1, Bind [] 8888,
             Listen 1024]\<rparr>)"
  by (simp add: startup_defs io_defs HOST_def PORT_def REQUEST_QUEUE_SIZE_def)

lemma startup_bind_fails:
  "socket_answer w = None \<Longrightarrow> setsockopt_answer w = None \<Longrightarrow> bind_answer w = Some n \<Longrightarrow>
     startup w s =
       (Raised (OSError n),
        s\<lparr>sockets := (sockets s)(ListenSocket \<mapsto> Created),
          reuseaddr := True,
          trace := trace s @
            [Socket_AF_INET_SOCK_STREAM, Setsockopt_SOL_SOCKET_SO_REUSEADDR 1, Bind [] 8888]\<rparr>)"
  by (simp add: startup_defs io_defs HOST_def PORT_def REQUEST_QUEUE_SIZE_def)

lemma startup_listen_fails:
  "socket_answer w = None \<Longrightarrow> setsockopt_answer w = None \<Longrightarrow> bind_answer w = None \<Longrightarrow>
   listen_answer w = Some n \<Longrightarrow>
     startup w s =
       (Raised (OSError n),
        s\<lparr>sockets := (sockets s)(ListenSocket \<mapsto> Bound [] 8888),
          reuseaddr := True,
          trace := trace s @
            [Socket_AF_INET_SOCK_STREAM, Setsockopt_SOL_SOCKET_SO_REUSEADDR 1, Bind [] 8888,
             Listen 1024]\<rparr>)"
  by (simp add: startup_defs io_defs HOST_def PORT_def REQUEST_QUEUE_SIZE_def)

text \<open>
  C9. Once the socket is created and the address-reuse option is set, \<^verbatim>\<open>serve_forever\<close>
  has issued, in this order, \<^verbatim>\<open>socket(AF_INET, SOCK_STREAM)\<close>,
  \<^verbatim>\<open>setsockopt(SOL_SOCKET, SO_REUSEADDR, 1)\<close>, \<^verbatim>\<open>bind\<close> to host \<^verbatim>\<open>""\<close> and port 8888 and
  \<^verbatim>\<open>listen(1024)\<close>, and it enters the accept loop with the socket listening. When
  \<^verbatim>\<open>bind\<close> or \<^verbatim>\<open>listen\<close> fails, the \<^verbatim>\<open>OSError\<close> leaves \<^verbatim>\<open>serve_forever\<close> at that
  call: no later call is issued, no \<^verbatim>\<open>accept\<close> among them, and the process ends with
  status 1.
\<close>

theorem startup_binds_and_listens_or_aborts:
  assumes "socket_answer w = None" and "setsockopt_answer w = None"
  shows
    "(bind_answer w = None \<and> listen_answer w = None \<longrightarrow>
        serve_forever w s =
          serve_loop (iterations w)
            (s\<lparr>sockets := (sockets s)(ListenSocket \<mapsto> Listening [] 8888 1024),
              reuseaddr := True,
              sigchld_reaper := True,
              trace := trace s @
                [Socket_AF_INET_SOCK_STREAM, Setsockopt_SOL_SOCKET_SO_REUSEADDR 1,
                 Bind [] 8888, Listen 1024, Print ''Serving HTTP on port 8888 ...'',
                 Signal_SIGCHLD_reap_children]\<rparr>)) \<and>
     (\<forall>n. bind_answer w = Some n \<longrightarrow>
        serve_forever w s =
          (Raised (OSError n),
           s\<lparr>sockets := (sockets s)(ListenSocket \<mapsto> Created),
             reuseaddr := True,
             trace := trace s @
               [Socket_AF_INET_SOCK_STREAM, Setsockopt_SOL_SOCKET_SO_REUSEADDR 1,
                Bind [] 8888]\<rparr>) \<and>
        exit_status (fst (serve_forever w s)) = Some 1) \<and>
     (\<forall>n. bind_answer w = None \<and> listen_answer w = Some n \<longrightarrow>
        serve_forever w s =
          (Raised (OSError n),
           s\<lparr>sockets := (sockets s)(ListenSocket \<mapsto> Bound [] 8888),
             reuseaddr := True,
             trace := trace s @
               [Socket_AF_INET_SOCK_STREAM, Setsockopt_SOL_SOCKET_SO_REUSEADDR 1,
                Bind [] 8888, Listen 1024]\<rparr>) \<and>
        exit_status (fst (serve_forever w s)) = Some 1)"
proof (intro conjI allI impI)
  assume "bind_answer w = None \<and> listen_answer w = None"
  with assms show "serve_forever w s =
      serve_loop (iterations w)
        (s\<lparr>sockets := (sockets s)(ListenSocket \<mapsto> Listening [] 8888 1024),
              reuseaddr := True,
              sigchld_reaper := True,
              trace := trace s @
                [Socket_AF_INET_SOCK_STREAM, Setsockopt_SOL_SOCKET_SO_REUSEADDR 1,
                 Bind [] 8888, Listen 1024, Print ''Serving HTTP on port 8888 ...'',
                 Signal_SIGCHLD_reap_children]\<rparr>)"
    by (simp add: serve_forever_def startup_ok io_bind_def print_def emit_def
        signal_SIGCHLD_reap_children_def str_PORT trace_reaper_swap)
next
  fix n
  assume "bind_answer w = Some n"
  with assms show l: "serve_forever w s =
      (Raised (OSError n),
       s\<lparr>sockets := (sockets s)(ListenSocket \<mapsto> Created),
             reuseaddr := True,
             trace := trace s @
               [Socket_AF_INET_SOCK_STREAM, Setsockopt_SOL_SOCKET_SO_REUSEADDR 1,
                Bind [] 8888]\<rparr>)"
    by (simp add: serve_forever_def startup_bind_fails io_bind_def)
  show "exit_status (fst (serve_forever w s)) = Some 1"
    by (simp only: l fst_conv exit_status.simps)
next
  fix n
  assume "bind_answer w = None \<and> listen_answer w = Some n"
  with assms show l: "serve_forever w s =
      (Raised (OSError n),
       s\<lparr>sockets := (sockets s)(ListenSocket \<mapsto> Bound [] 8888),
             reuseaddr := True,
             trace := trace s @
               [Socket_AF_INET_SOCK_STREAM, Setsockopt_SOL_SOCKET_SO_REUSEADDR 1,
                Bind [] 8888, Listen 1024]\<rparr>)"
    by (simp add: serve_forever_def startup_listen_fails io_bind_def)
  show "exit_status (fst (serve_forever w s)) = Some 1"
    by (simp only: l fst_conv exit_status.simps)
qed

text \<open>
  A world in which start-up succeeds and no connection has arrived yet, one in which
  \<^verbatim>\<open>bind\<close> fails with \<^verbatim>\<open>EADDRINUSE\<close> (98), and one in which \<^verbatim>\<open>listen\<close> does.
\<close>

theorem startup_binds_and_listens_or_aborts_witness:
  "fst (serve_forever
     \<lparr>socket_answer = None, setsockopt_answer = None, bind_answer = None,
        listen_answer = None, iterations = []\<rparr>
     fresh_process) = Blocked \<and>
   sockets (snd (serve_forever
     \<lparr>socket_answer = None, setsockopt_answer = None, bind_answer = None,
        listen_answer = None, iterations = []\<rparr>
     fresh_process)) ListenSocket = Some (Listening [] 8888 1024) \<and>
   trace (snd (serve_forever
     \<lparr>socket_answer = None, setsockopt_answer = None, bind_answer = None,
        listen_answer = None, iterations = []\<rparr>
     fresh_process)) =
     [Socket_AF_INET_SOCK_STREAM, Setsockopt_SOL_SOCKET_SO_REUSEADDR 1, Bind [] 8888,
      Listen 1024, Print ''Serving HTTP on port 8888 ...'', Signal_SIGCHLD_reap_children] \<and>
   fst (serve_forever
     \<lparr>socket_answer = None, setsockopt_answer = None, bind_answer = Some 98,
        listen_answer = None, iterations = [\<lparr>accept_answer = Inl EINTR, fork_answer = Inr 100\<rparr>]\<rparr>
     fresh_process) = Raised (OSError 98) \<and>
   trace (snd (serve_forever
     \<lparr>socket_answer = None, setsockopt_answer = None, bind_answer = Some 98,
        listen_answer = None, iterations = [\<lparr>accept_answer = Inl EINTR, fork_answer = Inr 100\<rparr>]\<rparr>
     fresh_process)) =
     [Socket_AF_INET_SOCK_STREAM, Setsockopt_SOL_SOCKET_SO_REUSEADDR 1, Bind [] 8888] \<and>
   fst (serve_forever
     \<lparr>socket_answer = None, setsockopt_answer = None, bind_answer = None,
        listen_answer = Some 98, iterations = [\<lparr>accept_answer = Inl EINTR, fork_answer = Inr 100\<rparr>]\<rparr>
     fresh_process) = Raised (OSError 98) \<and>
   trace (snd (serve_forever
     \<lparr>socket_answer = None, setsockopt_answer = None, bind_answer = None,
        listen_answer = Some 98, iterations = [\<lparr>accept_answer = Inl EINTR, fork_answer = Inr 100\<rparr>]\<rparr>
     fresh_process)) =
     [Socket_AF_INET_SOCK_STREAM, Setsockopt_SOL_SOCKET_SO_REUSEADDR 1, Bind [] 8888,
      Listen 1024]"
proof -
  let ?ok = "\<lparr>socket_answer = None, setsockopt_answer = None, bind_answer = None,
        listen_answer = None, iterations = []\<rparr>"
  let ?wb = "\<lparr>socket_answer = None, setsockopt_answer = None, bind_answer = Some 98,
        listen_answer = None, iterations = [\<lparr>accept_answer = Inl EINTR, fork_answer = Inr 100\<rparr>]\<rparr>"
  let ?wl = "\<lparr>socket_answer = None, setsockopt_answer = None, bind_answer = None,
        listen_answer = Some 98, iterations = [\<lparr>accept_answer = Inl EINTR, fork_answer = Inr 100\<rparr>]\<rparr>"
  have ok: "socket_answer ?ok = None" "setsockopt_answer ?ok = None"
      "bind_answer ?ok = None \<and> listen_answer ?ok = None"
    and wb: "socket_answer ?wb = None" "setsockopt_answer ?wb = None" "bind_answer ?wb = Some 98"
    and wl: "socket_answer ?wl = None" "setsockopt_answer ?wl = None"
      "bind_answer ?wl = None \<and> listen_answer ?wl = Some 98"
    by simp_all
  note 1 = startup_binds_and_listens_or_aborts
    [OF ok(1,2), of fresh_process, THEN conjunct1, rule_format, OF ok(3)]
  note 2 = startup_binds_and_listens_or_aborts
    [OF wb(1,2), of fresh_process, THEN conjunct2, THEN conjunct1, rule_format, OF wb(3)]
  note 3 = startup_binds_and_listens_or_aborts
    [OF wl(1,2), of fresh_process, THEN conjunct2, THEN conjunct2, rule_format, OF wl(3)]
  have a: "fst (serve_forever ?ok fresh_process) = Blocked \<and>
      sockets (snd (serve_forever ?ok fresh_process)) ListenSocket =
        Some (Listening [] 8888 1024) \<and>
      trace (snd (serve_forever ?ok fresh_process)) =
        [Socket_AF_INET_SOCK_STREAM, Setsockopt_SOL_SOCKET_SO_REUSEADDR 1, Bind [] 8888,
         Listen 1024, Print ''Serving HTTP on port 8888 ...'', Signal_SIGCHLD_reap_children]"
    unfolding 1 by (simp add: fresh_process_def)
  have b: "fst (serve_forever ?wb fresh_process) = Raised (OSError 98) \<and>
      trace (snd (serve_forever ?wb fresh_process)) =
        [Socket_AF_INET_SOCK_STREAM, Setsockopt_SOL_SOCKET_SO_REUSEADDR 1, Bind [] 8888]"
    unfolding 2 [THEN conjunct1] by (simp add: fresh_process_def)
  have c: "fst (serve_forever ?wl fresh_process) = Raised (OSError 98) \<and>
      trace (snd (serve_forever ?wl fresh_process)) =
        [Socket_AF_INET_SOCK_STREAM, Setsockopt_SOL_SOCKET_SO_REUSEADDR 1, Bind [] 8888,
         Listen 1024]"
    unfolding 3 [THEN conjunct1] by (simp add: fresh_process_def)
  from a b c show ?thesis by blast
qed

subsection \<open>The reaper\<close>

lemma reap_children_never_raises:
  assumes "reap_children waitpid signum frame k = Some r"
  shows "fst r \<noteq> Raised e"
proof (rule reap_children.raw_induct
    [where P = "\<lambda>_ _ _ _ r. fst r \<noteq> Raised e", OF _ assms])
  fix f :: "'a waitpid \<Rightarrow> int \<Rightarrow> unit \<Rightarrow> 'a \<Rightarrow> (unit outcome \<times> 'a) option"
    and w sg fr k y
  assume IH: "\<And>w sg fr k y. f w sg fr k = Some y \<Longrightarrow> fst y \<noteq> Raised e"
    and step: "(case w (- 1) WNOHANG k of
        (Returns pid status, k') \<Rightarrow>
          if pid = 0 then Some (Val (), k') else f w sg fr k'
      | (Raises_OSError n, k') \<Rightarrow> Some (Val (), k')
      | (Blocks, k') \<Rightarrow> Some (Blocked, k')) = Some y"
  from step show "fst y \<noteq> Raised e"
    by (auto split: prod.splits wait_answer.splits if_splits dest: IH)
qed

lemma posix_no_children:
  "posix_waitpid (- 1) WNOHANG [] = (Raises_OSError ECHILD, [])"
  by (simp add: posix_waitpid_def)

lemma posix_none_terminated:
  assumes "tbl \<noteq> []" and "filter is_terminated tbl = []"
  shows "posix_waitpid (- 1) WNOHANG tbl = (Returns 0 0, tbl)"
proof -
  from assms(2) have "List.find is_terminated tbl = None"
    by (simp add: find_None_iff filter_empty_conv)
  with assms(1) show ?thesis by (simp add: posix_waitpid_def)
qed

lemma find_terminated:
  "filter is_terminated tbl \<noteq> [] \<Longrightarrow>
     \<exists>q st. List.find is_terminated tbl = Some (q, Terminated st) \<and> (q, Terminated st) \<in> set tbl"
proof (induction tbl)
  case Nil
  then show ?case by simp
next
  case (Cons c tbl)
  then show ?case
    by (cases c; cases "snd c") (auto simp: is_terminated_def)
qed

lemma posix_some_terminated:
  assumes "filter is_terminated tbl \<noteq> []"
  shows "\<exists>q st. (q, Terminated st) \<in> set tbl \<and>
           posix_waitpid (- 1) WNOHANG tbl = (Returns q st, remove1 (q, Terminated st) tbl)"
proof -
  from find_terminated [OF assms] obtain q st
    where f: "List.find is_terminated tbl = Some (q, Terminated st)"
      and m: "(q, Terminated st) \<in> set tbl" by blast
  from m have "tbl \<noteq> []" by auto
  with f m show ?thesis by (auto simp: posix_waitpid_def)
qed

lemma filter_remove1_terminated:
  "is_terminated z \<Longrightarrow> filter (\<lambda>c. \<not> is_terminated c) (remove1 z tbl) =
     filter (\<lambda>c. \<not> is_terminated c) tbl"
  by (induction tbl) auto

lemma length_filter_remove1:
  "z \<in> set tbl \<Longrightarrow> is_terminated z \<Longrightarrow>
     Suc (length (filter is_terminated (remove1 z tbl))) = length (filter is_terminated tbl)"
  by (induction tbl) auto

text \<open>
  On the kernel's table the loop ends: each pass that goes on has taken one terminated child
  off the table.
\<close>

lemma reap_children_posix:
  "\<forall>c \<in> set tbl. fst c \<noteq> 0 \<Longrightarrow> length (filter is_terminated tbl) = n \<Longrightarrow>
     reap_children posix_waitpid signum frame tbl =
       Some (Val (), filter (\<lambda>c. \<not> is_terminated c) tbl)"
proof (induction n arbitrary: tbl)
  case 0
  then have none: "filter is_terminated tbl = []" by simp
  then have keep: "filter (\<lambda>c. \<not> is_terminated c) tbl = tbl"
    by (simp add: filter_empty_conv filter_id_conv)
  show ?case
  proof (cases "tbl = []")
    case True
    then show ?thesis
      by (subst reap_children.simps) (simp add: posix_no_children)
  next
    case False
    with none keep show ?thesis
      by (subst reap_children.simps) (simp add: posix_none_terminated)
  qed
next
  case (Suc n)
  then have "filter is_terminated tbl \<noteq> []" by auto
  from posix_some_terminated [OF this] obtain q st
    where m: "(q, Terminated st) \<in> set tbl"
      and w: "posix_waitpid (- 1) WNOHANG tbl = (Returns q st, remove1 (q, Terminated st) tbl)"
    by blast
  have t: "is_terminated (q, Terminated st)" by (simp add: is_terminated_def)
  from m Suc.prems(1) have q: "q \<noteq> 0" by auto
  have len: "length (filter is_terminated (remove1 (q, Terminated st) tbl)) = n"
    using length_filter_remove1 [OF m t] Suc.prems(2) by simp
  have wf: "\<forall>c \<in> set (remove1 (q, Terminated st) tbl). fst c \<noteq> 0"
    using Suc.prems(1) by (meson notin_set_remove1)
  have "reap_children posix_waitpid signum frame tbl =
          reap_children posix_waitpid signum frame (remove1 (q, Terminated st) tbl)"
    by (subst reap_children.simps) (simp add: w q)
  also have "\<dots> = Some (Val (), filter (\<lambda>c. \<not> is_terminated c) (remove1 (q, Terminated st) tbl))"
    by (rule Suc.IH [OF wf len])
  finally show ?case by (simp add: filter_remove1_terminated [OF t])
qed

text \<open>
  C4. One run of \<^verbatim>\<open>reap_children\<close> calls \<^verbatim>\<open>waitpid(-1, WNOHANG)\<close> again and again. It
  returns when a call returns pid 0 and when a call raises \<^verbatim>\<open>OSError\<close>, which is caught;
  after a call that returns another pid it calls again; and whenever it ends, it has not
  raised. Against the kernel's table of children (their pids not 0) the run ends, it returns
  without having blocked, every child that was terminated is gone from the table, and the
  running children are still there, not waited for.
\<close>

theorem reap_children_drains_without_blocking:
  "(\<forall>st k'. waitpid (- 1) WNOHANG k = (Returns 0 st, k') \<longrightarrow>
      reap_children waitpid signum frame k = Some (Val (), k')) \<and>
   (\<forall>n k'. waitpid (- 1) WNOHANG k = (Raises_OSError n, k') \<longrightarrow>
      reap_children waitpid signum frame k = Some (Val (), k')) \<and>
   (\<forall>p st k'. waitpid (- 1) WNOHANG k = (Returns p st, k') \<and> p \<noteq> 0 \<longrightarrow>
      reap_children waitpid signum frame k = reap_children waitpid signum frame k') \<and>
   (\<forall>r e. reap_children waitpid signum frame k = Some r \<longrightarrow> fst r \<noteq> Raised e) \<and>
   ((\<forall>c \<in> set tbl. fst c \<noteq> 0) \<longrightarrow>
      reap_children posix_waitpid signum frame tbl =
        Some (Val (), filter (\<lambda>c. \<not> is_terminated c) tbl))"
proof (intro conjI allI impI)
  fix st k'
  assume "waitpid (- 1) WNOHANG k = (Returns 0 st, k')"
  then show "reap_children waitpid signum frame k = Some (Val (), k')"
    by (subst reap_children.simps) simp
next
  fix n k'
  assume "waitpid (- 1) WNOHANG k = (Raises_OSError n, k')"
  then show "reap_children waitpid signum frame k = Some (Val (), k')"
    by (subst reap_children.simps) simp
next
  fix p st k'
  assume "waitpid (- 1) WNOHANG k = (Returns p st, k') \<and> p \<noteq> 0"
  then show "reap_children waitpid signum frame k = reap_children waitpid signum frame k'"
    by (subst reap_children.simps) simp
next
  fix r e
  assume "reap_children waitpid signum frame k = Some r"
  then show "fst r \<noteq> Raised e" by (rule reap_children_never_raises)
next
  assume "\<forall>c \<in> set tbl. fst c \<noteq> 0"
  then show "reap_children posix_waitpid signum frame tbl =
      Some (Val (), filter (\<lambda>c. \<not> is_terminated c) tbl)"
    by (rule reap_children_posix) simp
qed

text \<open>
  The handler called for \<^verbatim>\<open>SIGCHLD\<close> (17) with one running child; with no child at all;
  with a terminated child 6 and a running child 5; and with two terminated children and a
  running one.
\<close>

theorem reap_children_drains_without_blocking_witness:
  "posix_waitpid (- 1) WNOHANG [(5, Running)] = (Returns 0 0, [(5, Running)]) \<and>
   reap_children posix_waitpid 17 () [(5, Running)] = Some (Val (), [(5, Running)]) \<and>
   posix_waitpid (- 1) WNOHANG [] = (Raises_OSError ECHILD, []) \<and>
   reap_children posix_waitpid 17 () [] = Some (Val (), []) \<and>
   fst (Val () :: unit outcome, [] :: children) \<noteq> Raised (OSError ECHILD) \<and>
   posix_waitpid (- 1) WNOHANG [(6, Terminated 0), (5, Running)] =
     (Returns 6 0, [(5, Running)]) \<and>
   reap_children posix_waitpid 17 () [(6, Terminated 0), (5, Running)] =
     reap_children posix_waitpid 17 () [(5, Running)] \<and>
   reap_children posix_waitpid 17 () [(5, Running), (6, Terminated 0), (7, Terminated 1)] =
     Some (Val (), [(5, Running)])"
proof -
  have w1: "posix_waitpid (- 1) WNOHANG [(5, Running)] = (Returns 0 0, [(5, Running)])"
    by (simp add: posix_waitpid_def is_terminated_def)
  have w0: "posix_waitpid (- 1) WNOHANG [] = (Raises_OSError ECHILD, [])"
    by (simp add: posix_waitpid_def)
  have w2: "posix_waitpid (- 1) WNOHANG [(6, Terminated 0), (5, Running)] =
      (Returns 6 0, [(5, Running)]) \<and> (6::int) \<noteq> 0"
    by (simp add: posix_waitpid_def is_terminated_def)
  have pids: "\<forall>c \<in> set [(5::int, Running), (6, Terminated 0), (7, Terminated 1)]. fst c \<noteq> 0"
    by simp
  note T = reap_children_drains_without_blocking
    [where waitpid = posix_waitpid and signum = 17 and frame = "()"]
  have r1: "reap_children posix_waitpid 17 () [(5, Running)] = Some (Val (), [(5, Running)])"
    by (rule T [where k = "[(5, Running)]", THEN conjunct1, rule_format, OF w1])
  have r0: "reap_children posix_waitpid 17 () [] = Some (Val (), [])"
    by (rule T [where k = "[]", THEN conjunct2, THEN conjunct1, rule_format, OF w0])
  have r2: "reap_children posix_waitpid 17 () [(6, Terminated 0), (5, Running)] =
      reap_children posix_waitpid 17 () [(5, Running)]"
    by (rule T [where k = "[(6, Terminated 0), (5, Running)]", THEN conjunct2, THEN conjunct2,
          THEN conjunct1, rule_format, OF w2])
  have n0: "fst (Val () :: unit outcome, [] :: children) \<noteq> Raised (OSError ECHILD)"
    by (rule T [where k = "[]", THEN conjunct2, THEN conjunct2, THEN conjunct2,
          THEN conjunct1, rule_format, OF r0])
  have r3: "reap_children posix_waitpid 17 () [(5, Running), (6, Terminated 0), (7, Terminated 1)] =
      Some (Val (), filter (\<lambda>c. \<not> is_terminated c)
        [(5, Running), (6, Terminated 0), (7, Terminated 1)])"
    by (rule T [where tbl = "[(5, Running), (6, Terminated 0), (7, Terminated 1)]",
          THEN conjunct2, THEN conjunct2, THEN conjunct2, THEN conjunct2, THEN mp,
          OF pids])
  have r3': "reap_children posix_waitpid 17 () [(5, Running), (6, Terminated 0), (7, Terminated 1)] =
      Some (Val (), [(5, Running)])"
    unfolding r3 by (simp add: is_terminated_def)
  from w1 r1 w0 r0 n0 w2 r2 r3' show ?thesis by blast
qed

end
